theory Spec2Isabelle
  imports Complex_Main "HOL-Library.AList" "HOL-Library.Sublist"
begin

section \<open>Python strings and dictionaries\<close>

text \<open>
  A Python \<open>str\<close> is modelled as a \<open>string\<close> whose characters are the code points
  below 256. Whitespace is what \<open>str.isspace\<close> accepts in that range: tab, line feed,
  vertical tab, form feed, carriage return, the four separators 0x1C to 0x1F, space,
  0x85 and 0xA0. Timestamps (\<open>time.time()\<close>) are modelled as real numbers.

  A \<open>dict\<close> is an association list in insertion order: \<open>d[k] = v\<close> is
  \<open>AList.update k v d\<close> (the value is replaced in place, a new key goes to the end),
  \<open>d[k]\<close> is \<open>map_of d k\<close> and \<open>d.items()\<close> is the list itself.
\<close>

definition is_space :: "char \<Rightarrow> bool" where
  "is_space c \<longleftrightarrow> c \<in> set [CHR 0x09, CHR 0x0A, CHR 0x0B, CHR 0x0C, CHR 0x0D,
     CHR 0x1C, CHR 0x1D, CHR 0x1E, CHR 0x1F, CHR 0x20, CHR 0x85, CHR 0xA0]"

text \<open>\<open>s.strip()\<close>\<close>

definition strip :: "string \<Rightarrow> string" where
  "strip s = rev (dropWhile is_space (rev (dropWhile is_space s)))"

text \<open>\<open>s.split()\<close>: the maximal runs of non-whitespace characters. The first
  argument of \<open>split_ws\<close> is the token being read, reversed.\<close>

fun split_ws :: "string \<Rightarrow> string \<Rightarrow> string list" where
  "split_ws cur [] = (if cur = [] then [] else [rev cur])"
| "split_ws cur (c # cs) =
     (if is_space c then (if cur = [] then split_ws [] cs else rev cur # split_ws [] cs)
      else split_ws (c # cur) cs)"

definition split :: "string \<Rightarrow> string list" where
  "split s = split_ws [] s"

text \<open>\<open>s.split('\n')\<close>: the pieces between separators, empty pieces included.\<close>

fun split_on :: "char \<Rightarrow> string \<Rightarrow> string list" where
  "split_on sep [] = [[]]"
| "split_on sep (c # cs) =
     (if c = sep then [] # split_on sep cs
      else (case split_on sep cs of [] \<Rightarrow> [[c]] | w # ws \<Rightarrow> (c # w) # ws))"

text \<open>\<open>s.startswith(p)\<close>\<close>

definition startswith :: "string \<Rightarrow> string \<Rightarrow> bool" where
  "startswith s p \<longleftrightarrow> prefix p s"

text \<open>
  \<open>int(s)\<close> on a string: surrounding whitespace is dropped, then an optional sign, then
  decimal digits in which single underscores may separate digits. Anything else raises
  \<open>ValueError\<close>, modelled as \<open>None\<close>.
\<close>

definition is_digit :: "char \<Rightarrow> bool" where
  "is_digit c \<longleftrightarrow> c \<in> set ''0123456789''"

definition digit_val :: "char \<Rightarrow> nat" where
  "digit_val c = of_char c - 48"

text \<open>\<open>parse_digits acc prev_digit s\<close>: \<open>acc\<close> is the value read so far and
  \<open>prev_digit\<close> tells whether the previous character was a digit.\<close>

fun parse_digits :: "nat \<Rightarrow> bool \<Rightarrow> string \<Rightarrow> nat option" where
  "parse_digits acc prev [] = (if prev then Some acc else None)"
| "parse_digits acc prev (c # cs) =
     (if is_digit c then parse_digits (10 * acc + digit_val c) True cs
      else if c = CHR ''_'' \<and> prev \<and> cs \<noteq> [] then parse_digits acc False cs
      else None)"

definition py_int :: "string \<Rightarrow> int option" where
  "py_int s =
     (case strip s of
        [] \<Rightarrow> None
      | c # cs \<Rightarrow>
          if c = CHR ''-'' then map_option (\<lambda>n. - int n) (parse_digits 0 False cs)
          else if c = CHR ''+'' then map_option int (parse_digits 0 False cs)
          else map_option int (parse_digits 0 False (c # cs)))"

text \<open>\<open>str(n)\<close> for an integer, as the f-strings of the replies use it.\<close>

definition digit_char :: "nat \<Rightarrow> char" where
  "digit_char d = ''0123456789'' ! d"

function str_nat :: "nat \<Rightarrow> string" where
  "str_nat n = (if n < 10 then [digit_char n] else str_nat (n div 10) @ [digit_char (n mod 10)])"
  by pat_completeness auto
termination
  by (relation "measure id") auto

definition str_int :: "int \<Rightarrow> string" where
  "str_int i = (if i < 0 then CHR ''-'' # str_nat (nat (- i)) else str_nat (nat i))"

text \<open>
  What \<open>recv\<close> or \<open>recvfrom\<close> returns: bytes that \<open>data.decode('utf-8')\<close> turns
  into the given text (\<open>Text []\<close> is the empty read of a closed connection), or bytes on
  which it raises \<open>UnicodeDecodeError\<close>.
\<close>

datatype payload = Text string | Undecodable

section \<open>Index server\<close>

text \<open>
  The handlers of the three daemons run in threads and share dictionaries under a lock.
  The model serves one request, datagram or sweep at a time, each from the state the one
  before left. What \<open>recv\<close> returns is a \<open>payload\<close>: bytes that
  \<open>decode\<close> turns into text, or bytes on which it raises; the clock readings and what
  the network does are arguments. \<open>log\<close> only prints: it is modelled for the monitor, where
  the log lines tell what happened to a server, and left out elsewhere. A \<open>sendall\<close>
  that fails because the peer is gone is not modelled.
\<close>

text \<open>The values of \<open>content_servers\<close>: one dictionary per content server.\<close>

record server_info =
  ip :: string
  tcp_port :: int
  udp_port :: int
  load :: int
  last_update :: real
  status :: string

type_synonym server_dict = "(string \<times> server_info) list"

text \<open>\<open>file_index\<close>: file name to the list of (server id, file size).\<close>

type_synonym file_dict = "(string \<times> (string \<times> int) list) list"

text \<open>The two global dictionaries of the index server.\<close>

record index_state =
  content_servers :: server_dict
  file_index :: file_dict

text \<open>The loop of \<open>select_best_server\<close> that collects the candidates.\<close>

fun candidates :: "server_dict \<Rightarrow> (string \<times> int) list \<Rightarrow> (string \<times> server_info \<times> int) list" where
  "candidates cs [] = []"
| "candidates cs ((server_id, file_size) # rest) =
     (case map_of cs server_id of
        None \<Rightarrow> candidates cs rest
      | Some server \<Rightarrow>
          if status server = ''alive'' then (server_id, server, file_size) # candidates cs rest
          else candidates cs rest)"

text \<open>\<open>select_best_server\<close>: \<open>None\<close> is the pair \<open>(None, None)\<close> of the source;
  \<open>list.sort\<close> is stable, as \<open>sort_key\<close> is.\<close>

definition select_best_server :: "server_dict \<Rightarrow> file_dict \<Rightarrow> string \<Rightarrow> (server_info \<times> int) option" where
  "select_best_server cs fi file_name =
     (case map_of fi file_name of
        None \<Rightarrow> None
      | Some hosts \<Rightarrow>
          (case sort_key (\<lambda>x. load (fst (snd x))) (candidates cs hosts) of
             [] \<Rightarrow> None
           | best # _ \<Rightarrow> Some (fst (snd best), snd (snd best))))"

subsection \<open>Health refresh from the monitor\<close>

text \<open>
  What the network part of \<open>get_server_health_from_monitor\<close> ends with: an exception
  (connection refused, timeout, reset, undecodable bytes) or the accumulated response text.
\<close>

datatype monitor_link = Unreachable | Response string

text \<open>
  The merge loop over the lines of the response. The flag is \<open>False\<close> when \<open>int(load)\<close>
  raised: the loop stops there and the lines merged before stay merged.
\<close>

fun merge_health :: "server_dict \<Rightarrow> string list \<Rightarrow> server_dict \<times> bool" where
  "merge_health cs [] = (cs, True)"
| "merge_health cs (line # rest) =
     (if startswith line ''SERVER'' then
        (let parts = split line in
         if length parts \<ge> 6 then
           (let server_id = parts ! 1; load_tok = parts ! 4; status_tok = parts ! 5 in
            case map_of cs server_id of
              None \<Rightarrow> merge_health cs rest
            | Some info \<Rightarrow>
                (case py_int load_tok of
                   None \<Rightarrow> (cs, False)
                 | Some l \<Rightarrow>
                     merge_health
                       (AList.update server_id (info\<lparr>load := l, status := status_tok\<rparr>) cs) rest))
         else merge_health cs rest)
      else merge_health cs rest)"

text \<open>\<open>get_server_health_from_monitor\<close>: the registry afterwards and the returned flag.\<close>

definition get_server_health_from_monitor :: "server_dict \<Rightarrow> monitor_link \<Rightarrow> server_dict \<times> bool" where
  "get_server_health_from_monitor cs link =
     (case link of
        Unreachable \<Rightarrow> (cs, False)
      | Response response \<Rightarrow> merge_health cs (split_on CHR 0x0A (strip response)))"

subsection \<open>Registration connection\<close>

text \<open>
  The body of the \<open>REGISTER\<close> branch under the lock. \<open>None\<close> is the \<open>ValueError\<close>
  of \<open>int(tcp_port)\<close> or \<open>int(udp_port)\<close>, raised before the dictionary is written.
\<close>

definition register :: "string \<Rightarrow> real \<Rightarrow> string \<Rightarrow> string \<Rightarrow> string \<Rightarrow> server_dict \<Rightarrow> server_dict option" where
  "register addr_ip now server_id tcp_port_tok udp_port_tok cs =
     (case py_int tcp_port_tok of
        None \<Rightarrow> None
      | Some tp \<Rightarrow>
          (case py_int udp_port_tok of
             None \<Rightarrow> None
           | Some up \<Rightarrow>
               Some (AList.update server_id
                 \<lparr>ip = addr_ip, tcp_port = tp, udp_port = up, load = 0,
                  last_update = now, status = ''alive''\<rparr> cs)))"

text \<open>
  The body of the \<open>ADD_FILE\<close> branch under the lock. The flag is \<open>False\<close> when
  \<open>int(file_size)\<close> raised; the empty list stored for a new file name stays stored.
\<close>

definition add_file :: "string \<Rightarrow> string \<Rightarrow> string \<Rightarrow> file_dict \<Rightarrow> file_dict \<times> bool" where
  "add_file sid file_name file_size_tok fi =
     (let fi1 = (case map_of fi file_name of None \<Rightarrow> AList.update file_name [] fi | Some _ \<Rightarrow> fi);
          hosts = (case map_of fi file_name of None \<Rightarrow> [] | Some h \<Rightarrow> h);
          existing = filter (\<lambda>(s, sz). s = sid) hosts
      in if existing = [] then
           (case py_int file_size_tok of
              None \<Rightarrow> (fi1, False)
            | Some n \<Rightarrow> (AList.update file_name (hosts @ [(sid, n)]) fi1, True))
         else (fi1, True))"

text \<open>A sequence of \<open>ADD_FILE\<close> bodies run one after the other, each given as
  (server id, file name, size token).\<close>

fun add_files :: "(string \<times> string \<times> string) list \<Rightarrow> file_dict \<Rightarrow> file_dict" where
  "add_files [] fi = fi"
| "add_files ((sid, file_name, file_size_tok) # calls) fi =
     add_files calls (fst (add_file sid file_name file_size_tok fi))"

text \<open>The invariant of \<open>file_index\<close>: the file names are distinct keys and no server id
  occurs twice in the list of a file.\<close>

definition one_entry_per_pair :: "file_dict \<Rightarrow> bool" where
  "one_entry_per_pair fi \<longleftrightarrow>
     distinct (map fst fi) \<and> (\<forall>(file_name, hosts) \<in> set fi. distinct (map fst hosts))"

text \<open>
  One line of \<open>handle_content_server\<close>, already stripped and not empty: the state
  afterwards, what was sent on the connection, and \<open>False\<close> when an exception left the loop.
\<close>

definition handle_content_server_line ::
  "string \<Rightarrow> real \<Rightarrow> string \<Rightarrow> index_state \<Rightarrow> index_state \<times> string list \<times> bool" where
  "handle_content_server_line addr_ip now line st =
     (if startswith line ''REGISTER'' then
        (let parts = split line in
         if length parts \<ge> 4 then
           (case register addr_ip now (parts ! 1) (parts ! 2) (parts ! 3) (content_servers st) of
              None \<Rightarrow> (st, [], False)
            | Some cs' \<Rightarrow> (st\<lparr>content_servers := cs'\<rparr>, [''OK REGISTERED\<newline>''], True))
         else (st, [''ERROR INVALID_FORMAT\<newline>''], True))
      else if startswith line ''ADD_FILE'' then
        (let parts = split line in
         if length parts \<ge> 4 then
           (case add_file (parts ! 1) (parts ! 2) (parts ! 3) (file_index st) of
              (fi', ok) \<Rightarrow> (st\<lparr>file_index := fi'\<rparr>, [], ok))
         else (st, [], True))
      else if line = ''DONE_FILES'' then (st, [''OK FILES_ADDED\<newline>''], True)
      else if startswith line ''UPDATE_LOAD'' then
        (let parts = split line in
         if length parts \<ge> 3 then
           (case map_of (content_servers st) (parts ! 1) of
              None \<Rightarrow> (st, [''OK\<newline>''], True)
            | Some info \<Rightarrow>
                (case py_int (parts ! 2) of
                   None \<Rightarrow> (st, [], False)
                 | Some l \<Rightarrow>
                     (st\<lparr>content_servers :=
                          AList.update (parts ! 1) (info\<lparr>load := l, last_update := now\<rparr>)
                            (content_servers st)\<rparr>,
                      [''OK\<newline>''], True)))
         else (st, [], True))
      else (st, [], True))"

text \<open>The \<open>for line in lines\<close> loop of one received chunk.\<close>

fun handle_content_server_lines ::
  "string \<Rightarrow> real \<Rightarrow> string list \<Rightarrow> index_state \<Rightarrow> index_state \<times> string list \<times> bool" where
  "handle_content_server_lines addr_ip now [] st = (st, [], True)"
| "handle_content_server_lines addr_ip now (l # ls) st =
     (let line = strip l in
      if line = [] then handle_content_server_lines addr_ip now ls st
      else
        (case handle_content_server_line addr_ip now line st of
           (st', out, ok) \<Rightarrow>
             if ok then
               (case handle_content_server_lines addr_ip now ls st' of
                  (st'', out', ok') \<Rightarrow> (st'', out @ out', ok'))
             else (st', out, False)))"

text \<open>
  \<open>handle_content_server\<close> over the chunks that \<open>recv\<close> returns, each with the clock
  reading used while it is processed. An empty chunk or an exception, that of \<open>decode\<close>
  included, ends the connection.
\<close>

fun handle_content_server ::
  "string \<Rightarrow> (real \<times> payload) list \<Rightarrow> index_state \<Rightarrow> index_state \<times> string list" where
  "handle_content_server addr_ip [] st = (st, [])"
| "handle_content_server addr_ip ((now, Undecodable) # rest) st = (st, [])"
| "handle_content_server addr_ip ((now, Text data) # rest) st =
     (if data = [] then (st, [])
      else
        (case handle_content_server_lines addr_ip now (split_on CHR 0x0A (strip data)) st of
           (st', out, ok) \<Rightarrow>
             if ok then
               (case handle_content_server addr_ip rest st' of
                  (st'', out') \<Rightarrow> (st'', out @ out'))
             else (st', out)))"

subsection \<open>Client connection\<close>

text \<open>The reply of the \<open>GET\<close> branch once a server was selected: the id is the first
  key of \<open>content_servers\<close> whose value equals the selected dictionary.\<close>

definition server_reply :: "server_dict \<Rightarrow> server_info \<Rightarrow> int \<Rightarrow> string" where
  "server_reply cs server file_size =
     (case find (\<lambda>(sid, info). info = server) cs of
        Some (sid, info) \<Rightarrow>
          ''SERVER '' @ ip server @ '' '' @ str_int (tcp_port server) @ '' '' @ sid @ '' ''
            @ str_int file_size @ ''\<newline>''
      | None \<Rightarrow>
          ''SERVER '' @ ip server @ '' '' @ str_int (tcp_port server) @ '' unknown ''
            @ str_int file_size @ ''\<newline>'')"

text \<open>The \<open>LIST_FILES\<close> reply: for each file the size at its first alive host.\<close>

fun first_alive_size :: "server_dict \<Rightarrow> (string \<times> int) list \<Rightarrow> int option" where
  "first_alive_size cs [] = None"
| "first_alive_size cs ((sid, sz) # rest) =
     (case map_of cs sid of
        None \<Rightarrow> first_alive_size cs rest
      | Some info \<Rightarrow> if status info = ''alive'' then Some sz else first_alive_size cs rest)"

fun list_files_lines :: "server_dict \<Rightarrow> file_dict \<Rightarrow> string" where
  "list_files_lines cs [] = []"
| "list_files_lines cs ((file_name, servers_list) # rest) =
     (case first_alive_size cs servers_list of
        None \<Rightarrow> list_files_lines cs rest
      | Some sz \<Rightarrow>
          ''FILE '' @ file_name @ '' '' @ str_int sz @ ''\<newline>'' @ list_files_lines cs rest)"

fun list_servers_lines :: "server_dict \<Rightarrow> string" where
  "list_servers_lines [] = []"
| "list_servers_lines ((server_id, info) # rest) =
     ''SERVER '' @ server_id @ '' '' @ ip info @ '' '' @ str_int (tcp_port info) @ '' ''
       @ str_int (load info) @ '' '' @ status info @ ''\<newline>'' @ list_servers_lines rest"

text \<open>
  One request of \<open>handle_client\<close>: \<open>message\<close> is the stripped text of a chunk and
  \<open>link\<close> is what the health refresh of this request meets on the network.
\<close>

definition handle_client_message ::
  "monitor_link \<Rightarrow> string \<Rightarrow> index_state \<Rightarrow> index_state \<times> string list" where
  "handle_client_message link message st =
     (if message = ''HELLO'' then (st, [''WELCOME MICRO-CDN\<newline>''])
      else if startswith message ''GET'' then
        (let parts = split message in
         if length parts \<ge> 2 then
           (let file_name = parts ! 1;
                cs' = fst (get_server_health_from_monitor (content_servers st) link);
                st' = st\<lparr>content_servers := cs'\<rparr>
            in case select_best_server cs' (file_index st') file_name of
                 Some (server, file_size) \<Rightarrow> (st', [server_reply cs' server file_size])
               | None \<Rightarrow> (st', [''ERROR FILE_NOT_FOUND\<newline>'']))
         else (st, [''ERROR INVALID_FORMAT\<newline>'']))
      else if message = ''LIST_FILES'' then
        (st, [list_files_lines (content_servers st) (file_index st) @ ''END\<newline>''])
      else if message = ''LIST_SERVERS'' then
        (st, [list_servers_lines (content_servers st) @ ''END\<newline>''])
      else (st, [''ERROR UNKNOWN_COMMAND\<newline>'']))"

text \<open>
  \<open>handle_client\<close> over the received chunks. An empty chunk ends the connection; so
  does a chunk on which \<open>decode\<close> raises: the \<open>except\<close> around the loop logs the
  error, nothing is sent and the connection is closed.
\<close>

fun handle_client :: "(monitor_link \<times> payload) list \<Rightarrow> index_state \<Rightarrow> index_state \<times> string list" where
  "handle_client [] st = (st, [])"
| "handle_client ((link, Undecodable) # rest) st = (st, [])"
| "handle_client ((link, Text data) # rest) st =
     (if data = [] then (st, [])
      else
        (case handle_client_message link (strip data) st of
           (st', out) \<Rightarrow>
             (case handle_client rest st' of (st'', out') \<Rightarrow> (st'', out @ out'))))"

text \<open>\<open>handle_monitor_notification\<close>: a \<open>SERVER_DOWN\<close> message marks a known server
  dead; bytes that do not decode change nothing.\<close>

definition handle_monitor_notification :: "payload \<Rightarrow> server_dict \<Rightarrow> server_dict" where
  "handle_monitor_notification received cs =
     (case received of
        Undecodable \<Rightarrow> cs
      | Text data \<Rightarrow>
          if data = [] then cs
          else
            (let message = strip data in
             if startswith message ''SERVER_DOWN'' then
               (let parts = split message in
                if length parts \<ge> 2 then
                  (case map_of cs (parts ! 1) of
                     None \<Rightarrow> cs
                   | Some info \<Rightarrow> AList.update (parts ! 1) (info\<lparr>status := ''dead''\<rparr>) cs)
                else cs)
             else cs))"

section \<open>Monitor\<close>

text \<open>The values of \<open>servers\<close>: the last heartbeat of a content server.\<close>

record heartbeat_info =
  hb_ip :: string
  hb_tcp_port :: int
  last_seen :: real
  hb_load :: int
  num_files :: int
  hb_status :: string

type_synonym heartbeat_dict = "(string \<times> heartbeat_info) list"

text \<open>The globals of the monitor: \<open>servers\<close> and \<open>index_server_addr\<close>.\<close>

record monitor_state =
  servers :: heartbeat_dict
  index_server_addr :: "(string \<times> int) option"

definition HEARTBEAT_TIMEOUT :: real where
  "HEARTBEAT_TIMEOUT = 8"

text \<open>
  What the monitor does besides changing its state, in the order it happens: the lines it
  logs, each call of \<open>notify_index_server_failure\<close>, and the message such a call sends
  to the index server.
\<close>

datatype monitor_event =
    Log_heartbeat string string string
  | Log_came_back string
  | Log_heartbeat_error
  | Log_marked_dead string real
  | Notify_index_server_failure string
  | Sent "string \<times> int" string
  | Log_notified string
  | Log_notify_failed

subsection \<open>Heartbeats\<close>

text \<open>
  One datagram of \<open>udp_heartbeat_listener\<close>, decoded and stripped, received at time
  \<open>now\<close>. The three \<open>int\<close> conversions happen while the new dictionary is built,
  before \<open>servers\<close> is written; if one of them raises, the \<open>except\<close> of the loop
  logs the error.
\<close>

definition on_heartbeat :: "real \<Rightarrow> string \<Rightarrow> heartbeat_dict \<Rightarrow> heartbeat_dict \<times> monitor_event list" where
  "on_heartbeat now message srv =
     (if startswith message ''HEARTBEAT'' then
        (let parts = split message in
         if length parts \<ge> 6 then
           (let server_id = parts ! 1; ip_tok = parts ! 2; tcp_port_tok = parts ! 3;
                load_tok = parts ! 4; num_files_tok = parts ! 5;
                was_dead = (case map_of srv server_id of
                              None \<Rightarrow> False
                            | Some info \<Rightarrow> hb_status info = ''dead'')
            in case py_int tcp_port_tok of
                 None \<Rightarrow> (srv, [Log_heartbeat_error])
               | Some tp \<Rightarrow>
                   (case py_int load_tok of
                      None \<Rightarrow> (srv, [Log_heartbeat_error])
                    | Some l \<Rightarrow>
                        (case py_int num_files_tok of
                           None \<Rightarrow> (srv, [Log_heartbeat_error])
                         | Some n \<Rightarrow>
                             (AList.update server_id
                                \<lparr>hb_ip = ip_tok, hb_tcp_port = tp, last_seen = now, hb_load = l,
                                 num_files = n, hb_status = ''alive''\<rparr> srv,
                              [if was_dead then Log_came_back server_id
                               else Log_heartbeat server_id load_tok num_files_tok]))))
         else (srv, []))
      else (srv, []))"

text \<open>The \<open>while True\<close> loop of \<open>udp_heartbeat_listener\<close> over the datagrams received,
  each with its arrival time. Every exception is caught inside the loop.\<close>

fun udp_heartbeat_listener ::
  "(real \<times> payload) list \<Rightarrow> heartbeat_dict \<Rightarrow> heartbeat_dict \<times> monitor_event list" where
  "udp_heartbeat_listener [] srv = (srv, [])"
| "udp_heartbeat_listener ((now, Undecodable) # rest) srv =
     (case udp_heartbeat_listener rest srv of
        (srv', ev) \<Rightarrow> (srv', Log_heartbeat_error # ev))"
| "udp_heartbeat_listener ((now, Text data) # rest) srv =
     (case on_heartbeat now (strip data) srv of
        (srv1, ev1) \<Rightarrow>
          (case udp_heartbeat_listener rest srv1 of
             (srv2, ev2) \<Rightarrow> (srv2, ev1 @ ev2)))"

subsection \<open>Liveness check and failure notification\<close>

text \<open>\<open>int(x)\<close> on a float rounds towards zero.\<close>

definition truncate :: "real \<Rightarrow> int" where
  "truncate x = (if x < 0 then \<lceil>x\<rceil> else \<lfloor>x\<rfloor>)"

text \<open>
  \<open>notify_index_server_failure\<close>: \<open>clock\<close> is \<open>time.time()\<close> at the call and
  \<open>delivered\<close> tells whether connecting and sending went through without an exception.
\<close>

definition notify_index_server_failure ::
  "(string \<times> int) option \<Rightarrow> string \<Rightarrow> real \<Rightarrow> bool \<Rightarrow> monitor_event list" where
  "notify_index_server_failure addr server_id clock delivered =
     Notify_index_server_failure server_id #
     (case addr of
        None \<Rightarrow> []
      | Some a \<Rightarrow>
          if delivered then
            [Sent a (''SERVER_DOWN '' @ server_id @ '' '' @ str_int (truncate clock) @ ''\<newline>''),
             Log_notified server_id]
          else [Log_notify_failed])"

text \<open>
  One pass of the \<open>for\<close> loop of \<open>check_server_health\<close> at \<open>current_time\<close>;
  \<open>net server_id\<close> gives the clock reading and the delivery outcome met by the
  notification for that server.
\<close>

fun sweep ::
  "(string \<times> int) option \<Rightarrow> (string \<Rightarrow> real \<times> bool) \<Rightarrow> real \<Rightarrow> heartbeat_dict
     \<Rightarrow> heartbeat_dict \<times> monitor_event list" where
  "sweep addr net current_time [] = ([], [])"
| "sweep addr net current_time ((server_id, info) # rest) =
     (case sweep addr net current_time rest of
        (rest', ev) \<Rightarrow>
          if hb_status info = ''alive'' then
            (let time_since_heartbeat = current_time - last_seen info in
             if time_since_heartbeat > HEARTBEAT_TIMEOUT then
               ((server_id, info\<lparr>hb_status := ''dead''\<rparr>) # rest',
                Log_marked_dead server_id time_since_heartbeat
                  # notify_index_server_failure addr server_id
                      (fst (net server_id)) (snd (net server_id))
                  @ ev)
             else ((server_id, info) # rest', ev))
          else ((server_id, info) # rest', ev))"

text \<open>\<open>check_server_health\<close> over the times at which the loop wakes up.\<close>

fun check_server_health ::
  "(string \<times> int) option \<Rightarrow> (string \<Rightarrow> real \<times> bool) \<Rightarrow> real list \<Rightarrow> heartbeat_dict
     \<Rightarrow> heartbeat_dict \<times> monitor_event list" where
  "check_server_health addr net [] srv = (srv, [])"
| "check_server_health addr net (current_time # later) srv =
     (case sweep addr net current_time srv of
        (srv1, ev1) \<Rightarrow>
          (case check_server_health addr net later srv1 of
             (srv2, ev2) \<Rightarrow> (srv2, ev1 @ ev2)))"

subsection \<open>TCP interface\<close>

fun list_heartbeat_lines :: "heartbeat_dict \<Rightarrow> string" where
  "list_heartbeat_lines [] = []"
| "list_heartbeat_lines ((server_id, info) # rest) =
     ''SERVER '' @ server_id @ '' '' @ hb_ip info @ '' '' @ str_int (hb_tcp_port info) @ '' ''
       @ str_int (hb_load info) @ '' '' @ hb_status info @ ''\<newline>'' @ list_heartbeat_lines rest"

text \<open>One request of \<open>handle_tcp_client\<close>, stripped: the state afterwards, what was
  sent, and \<open>False\<close> when \<open>int(parts[2])\<close> raised and the connection is closed.\<close>

definition handle_tcp_message ::
  "string \<Rightarrow> monitor_state \<Rightarrow> monitor_state \<times> string list \<times> bool" where
  "handle_tcp_message message st =
     (if message = ''LIST_SERVERS'' then
        (st, [list_heartbeat_lines (servers st) @ ''END\<newline>''], True)
      else if startswith message ''REGISTER_INDEX'' then
        (let parts = split message in
         if length parts \<ge> 3 then
           (case py_int (parts ! 2) of
              None \<Rightarrow> (st, [], False)
            | Some index_port \<Rightarrow>
                (st\<lparr>index_server_addr := Some (parts ! 1, index_port)\<rparr>,
                 [''OK INDEX_REGISTERED\<newline>''], True))
         else (st, [''ERROR INVALID_FORMAT\<newline>''], True))
      else if message = ''PING'' then (st, [''PONG\<newline>''], True)
      else (st, [''ERROR UNKNOWN_COMMAND\<newline>''], True))"

text \<open>
  \<open>handle_tcp_client\<close> over the received chunks. An empty chunk ends the connection; so
  do a chunk on which \<open>decode\<close> raises and a \<open>REGISTER_INDEX\<close> whose port is not an
  integer: the \<open>except\<close> around the loop logs the error, nothing is sent and the
  connection is closed.
\<close>

fun handle_tcp_client :: "payload list \<Rightarrow> monitor_state \<Rightarrow> monitor_state \<times> string list" where
  "handle_tcp_client [] st = (st, [])"
| "handle_tcp_client (Undecodable # rest) st = (st, [])"
| "handle_tcp_client (Text data # rest) st =
     (if data = [] then (st, [])
      else
        (case handle_tcp_message (strip data) st of
           (st', out, ok) \<Rightarrow>
             if ok then
               (case handle_tcp_client rest st' of (st'', out') \<Rightarrow> (st'', out @ out'))
             else (st', out)))"

section \<open>Content server\<close>

text \<open>\<open>f.read(4096)\<close> until the end of the file.\<close>

function chunks :: "nat \<Rightarrow> string \<Rightarrow> string list" where
  "chunks n xs = (if n = 0 \<or> xs = [] then [] else take n xs # chunks n (drop n xs))"
  by pat_completeness auto
termination
  by (relation "measure (\<lambda>(n, xs). length xs)") auto

text \<open>
  \<open>ContentServer.handle_client\<close>: \<open>files\<close> is the catalogue (name to size) and
  \<open>disk\<close> the contents of the files directory. The handler reads one chunk, answers it
  and closes the connection. The result is what was sent, and \<open>False\<close> when an
  exception ended the handler: \<open>decode\<close> raised on the chunk, before anything was sent,
  or \<open>open\<close> raised because the file is gone. The counter \<open>active_clients\<close>, incremented on entry
  and decremented on exit, is left out.
\<close>

definition content_handle_client ::
  "(string \<times> int) list \<Rightarrow> (string \<Rightarrow> string option) \<Rightarrow> payload \<Rightarrow> string list \<times> bool" where
  "content_handle_client files disk received =
     (case received of
        Undecodable \<Rightarrow> ([], False)
      | Text data \<Rightarrow>
          if data = [] then ([], True)
          else
            (let message = strip data in
             if startswith message ''GET'' then
               (let parts = split message in
                if length parts \<ge> 2 then
                  (let filename = parts ! 1 in
                   case map_of files filename of
                     Some file_size \<Rightarrow>
                       (case disk filename of
                          Some content \<Rightarrow>
                            ((''OK '' @ str_int file_size @ ''\<newline>'') # chunks 4096 content, True)
                        | None \<Rightarrow> ([''OK '' @ str_int file_size @ ''\<newline>''], False))
                   | None \<Rightarrow> ([''ERROR FILE_NOT_FOUND\<newline>''], True))
                else ([''ERROR INVALID_FORMAT\<newline>''], True))
             else ([''ERROR UNKNOWN_COMMAND\<newline>''], True)))"

section \<open>Example states\<close>

text \<open>Three registered content servers with loads 3, 1 and 5 that all host \<open>a.txt\<close>.\<close>

definition cs1_info :: server_info where
  "cs1_info = \<lparr>ip = ''10.0.0.1'', tcp_port = 7001, udp_port = 7002, load = 3,
     last_update = 100, status = ''alive''\<rparr>"

definition cs2_info :: server_info where
  "cs2_info = \<lparr>ip = ''10.0.0.2'', tcp_port = 7011, udp_port = 7012, load = 1,
     last_update = 101, status = ''alive''\<rparr>"

definition cs3_info :: server_info where
  "cs3_info = \<lparr>ip = ''10.0.0.3'', tcp_port = 7021, udp_port = 7022, load = 5,
     last_update = 102, status = ''alive''\<rparr>"

definition example_servers :: server_dict where
  "example_servers = [(''CS1'', cs1_info), (''CS2'', cs2_info), (''CS3'', cs3_info)]"

definition example_hosts :: "(string \<times> int) list" where
  "example_hosts = [(''CS1'', 100), (''CS2'', 100), (''CS3'', 100)]"

definition example_files :: file_dict where
  "example_files = [(''a.txt'', example_hosts)]"

text \<open>The same registry after every server was marked dead.\<close>

definition dead_servers :: server_dict where
  "dead_servers = [(''CS1'', cs1_info\<lparr>status := ''dead''\<rparr>),
     (''CS2'', cs2_info\<lparr>status := ''dead''\<rparr>), (''CS3'', cs3_info\<lparr>status := ''dead''\<rparr>)]"

text \<open>A registry entry with accumulated load that was marked dead.\<close>

definition worn_servers :: server_dict where
  "worn_servers = [(''CS1'', cs1_info\<lparr>load := 7, status := ''dead''\<rparr>), (''CS2'', cs2_info)]"

text \<open>Two heartbeat records of the monitor: at time 109 the first is 9 seconds old, the
  second 1 second.\<close>

definition hb1_info :: heartbeat_info where
  "hb1_info = \<lparr>hb_ip = ''localhost'', hb_tcp_port = 7001, last_seen = 100, hb_load = 2,
     num_files = 3, hb_status = ''alive''\<rparr>"

definition hb2_info :: heartbeat_info where
  "hb2_info = \<lparr>hb_ip = ''localhost'', hb_tcp_port = 7011, last_seen = 108, hb_load = 0,
     num_files = 3, hb_status = ''alive''\<rparr>"

definition example_heartbeats :: heartbeat_dict where
  "example_heartbeats = [(''CS1'', hb1_info), (''CS2'', hb2_info)]"

definition dead_heartbeats :: heartbeat_dict where
  "dead_heartbeats = [(''CS1'', hb1_info\<lparr>hb_status := ''dead''\<rparr>), (''CS2'', hb2_info)]"

text \<open>The index server listens for notifications on port 5001; every delivery goes
  through, at the time of the sweep.\<close>

definition example_addr :: "(string \<times> int) option" where
  "example_addr = Some (''localhost'', 5001)"

definition example_net :: "string \<Rightarrow> real \<times> bool" where
  "example_net server_id = (109, True)"

section \<open>Auxiliary facts\<close>

lemma hd_sort_key_min:
  assumes "xs \<noteq> []"
  shows "\<exists>b bs. sort_key f xs = b # bs \<and> b \<in> set xs \<and> (\<forall>y\<in>set xs. f b \<le> f y)"
proof -
  from assms have "sort_key f xs \<noteq> []" by (metis length_sort length_0_conv)
  then obtain b bs where eq: "sort_key f xs = b # bs" by (cases "sort_key f xs") auto
  have "sorted (map f (sort_key f xs))" by simp
  with eq have "\<forall>y\<in>set bs. f b \<le> f y" by simp
  moreover have "set xs = insert b (set bs)" using eq by (metis set_sort list.simps(15))
  ultimately show ?thesis using eq by auto
qed

lemma set_candidates:
  "(sid, r, sz) \<in> set (candidates cs hosts) \<longleftrightarrow>
     (sid, sz) \<in> set hosts \<and> map_of cs sid = Some r \<and> status r = ''alive''"
  by (induction cs hosts rule: candidates.induct) (auto split: option.splits)

lemma candidates_none:
  assumes "\<forall>(sid, sz) \<in> set hosts.
             map_of cs sid = None \<or> (\<exists>r. map_of cs sid = Some r \<and> status r = ''dead'')"
  shows "candidates cs hosts = []"
proof (rule ccontr)
  assume "candidates cs hosts \<noteq> []"
  then obtain sid r sz where "(sid, r, sz) \<in> set (candidates cs hosts)"
    by (cases "candidates cs hosts") auto
  then have "(sid, sz) \<in> set hosts" "map_of cs sid = Some r" "status r = ''alive''"
    by (simp_all add: set_candidates)
  with assms show False by fastforce
qed

lemma startswith_GET_not_HELLO: "startswith message ''GET'' \<Longrightarrow> message \<noteq> ''HELLO''"
  by (auto simp: startswith_def)

lemma set_update_subset: "set (AList.update k v al) \<subseteq> insert (k, v) (set al)"
  by (induction al) auto

lemma add_file_existing:
  assumes "map_of fi f = Some hosts" and "(sid, z) \<in> set hosts"
  shows "add_file sid f tok fi = (fi, True)"
  using assms by (auto simp: add_file_def Let_def filter_empty_conv)

lemma one_entry_update:
  assumes "one_entry_per_pair fi" and "distinct (map fst hosts)"
  shows "one_entry_per_pair (AList.update f hosts fi)"
proof -
  have "\<forall>(file_name, hs) \<in> set (AList.update f hosts fi). distinct (map fst hs)"
    using assms set_update_subset [of f hosts fi] by (auto simp: one_entry_per_pair_def)
  with assms(1) show ?thesis
    by (simp add: one_entry_per_pair_def distinct_update)
qed

lemma add_file_preserves:
  assumes "one_entry_per_pair fi"
  shows "one_entry_per_pair (fst (add_file sid f tok fi))"
proof (cases "map_of fi f")
  case None
  have e: "one_entry_per_pair (AList.update f [] fi)"
    using assms by (simp add: one_entry_update)
  have "one_entry_per_pair (AList.update f [(sid, n)] fi)" for n
    using assms by (simp add: one_entry_update)
  with None e show ?thesis
    by (simp add: add_file_def Let_def split: option.splits)
next
  case (Some hosts)
  then have "(f, hosts) \<in> set fi" by (rule map_of_SomeD)
  with assms have d: "distinct (map fst hosts)" by (auto simp: one_entry_per_pair_def)
  have "one_entry_per_pair (AList.update f (hosts @ [(sid, n)]) fi)"
    if "filter (\<lambda>(s, sz). s = sid) hosts = []" for n
  proof -
    from that have "sid \<notin> fst ` set hosts" by (auto simp: filter_empty_conv)
    with d have "distinct (map fst (hosts @ [(sid, n)]))" by simp
    with assms show ?thesis by (rule one_entry_update)
  qed
  with Some assms show ?thesis
    by (simp add: add_file_def Let_def split: option.splits)
qed

lemma add_files_preserve:
  "one_entry_per_pair fi \<Longrightarrow> one_entry_per_pair (add_files calls fi)"
  by (induction calls fi rule: add_files.induct) (simp_all add: add_file_preserves)

lemma add_file_new:
  assumes "py_int tok = Some n"
      and "\<forall>hosts. map_of fi f = Some hosts \<longrightarrow> sid \<notin> fst ` set hosts"
  shows "\<exists>hosts. sid \<notin> fst ` set hosts \<and>
           map_of (fst (add_file sid f tok fi)) f = Some (hosts @ [(sid, n)])"
proof (cases "map_of fi f")
  case None
  with assms(1) show ?thesis
    by (simp add: add_file_def Let_def update_conv')
next
  case (Some hosts)
  with assms(2) have "sid \<notin> fst ` set hosts" by simp
  then have "filter (\<lambda>(s, sz). s = sid) hosts = []"
    by (force simp: filter_empty_conv)
  with Some assms(1) \<open>sid \<notin> fst ` set hosts\<close> show ?thesis
    by (simp add: add_file_def Let_def update_conv')
qed

lemmas tok_simps = split_def is_space_def startswith_def strip_def py_int_def is_digit_def
  digit_val_def str_int_def digit_char_def

section \<open>Server selection\<close>

text \<open>
  C1. When \<open>file_name\<close> is in the file index and one of its hosts is registered with
  status \<open>alive\<close>, \<open>select_best_server\<close> returns the dictionary and the file size of a
  host of that file that is registered and alive, and no registered alive host of the file
  has a smaller load.
\<close>

theorem select_best_server_min_load:
  assumes "map_of fi file_name = Some hosts"
      and "(s0, z0) \<in> set hosts" and "map_of cs s0 = Some r0" and "status r0 = ''alive''"
  shows "\<exists>sid r sz. select_best_server cs fi file_name = Some (r, sz)
           \<and> (sid, sz) \<in> set hosts \<and> map_of cs sid = Some r \<and> status r = ''alive''
           \<and> (\<forall>(sid', sz') \<in> set hosts. \<forall>r'. map_of cs sid' = Some r' \<and> status r' = ''alive''
                 \<longrightarrow> load r \<le> load r')"
proof -
  let ?key = "\<lambda>x::string \<times> server_info \<times> int. load (fst (snd x))"
  from assms(2-4) have "(s0, r0, z0) \<in> set (candidates cs hosts)"
    by (simp add: set_candidates)
  then have "candidates cs hosts \<noteq> []" by auto
  from hd_sort_key_min [OF this, of ?key]
  obtain b bs where srt: "sort_key ?key (candidates cs hosts) = b # bs"
    and mem: "b \<in> set (candidates cs hosts)"
    and le: "\<forall>y\<in>set (candidates cs hosts). ?key b \<le> ?key y" by blast
  obtain sid r sz where b: "b = (sid, r, sz)" by (cases b) auto
  from mem b have m: "(sid, sz) \<in> set hosts" "map_of cs sid = Some r" "status r = ''alive''"
    by (simp_all add: set_candidates)
  have sel: "select_best_server cs fi file_name = Some (r, sz)"
    using assms(1) srt b by (simp add: select_best_server_def)
  have "\<forall>(sid', sz') \<in> set hosts. \<forall>r'. map_of cs sid' = Some r' \<and> status r' = ''alive''
          \<longrightarrow> load r \<le> load r'"
  proof (clarify)
    fix sid' sz' r'
    assume "(sid', sz') \<in> set hosts" "map_of cs sid' = Some r'" "status r' = ''alive''"
    then have "(sid', r', sz') \<in> set (candidates cs hosts)" by (simp add: set_candidates)
    with le b show "load r \<le> load r'" by fastforce
  qed
  with sel m show ?thesis by blast
qed

theorem select_best_server_min_load_witness:
  "map_of example_files ''a.txt'' = Some example_hosts
   \<and> (''CS1'', 100) \<in> set example_hosts
   \<and> map_of example_servers ''CS1'' = Some cs1_info
   \<and> status cs1_info = ''alive''
   \<and> (\<exists>sid r sz. select_best_server example_servers example_files ''a.txt'' = Some (r, sz)
        \<and> (sid, sz) \<in> set example_hosts \<and> map_of example_servers sid = Some r
        \<and> status r = ''alive''
        \<and> (\<forall>(sid', sz') \<in> set example_hosts.
              \<forall>r'. map_of example_servers sid' = Some r' \<and> status r' = ''alive''
                \<longrightarrow> load r \<le> load r'))"
proof -
  have h1: "map_of example_files ''a.txt'' = Some example_hosts"
    by (simp add: example_files_def)
  have h2: "(''CS1'', 100) \<in> set example_hosts"
    by (simp add: example_hosts_def)
  have h3: "map_of example_servers ''CS1'' = Some cs1_info"
    by (simp add: example_servers_def)
  have h4: "status cs1_info = ''alive''"
    by (simp add: cs1_info_def)
  from select_best_server_min_load [OF h1 h2 h3 h4] h1 h2 h3 h4 show ?thesis
    by simp
qed

text \<open>The example of the specification: with loads 3, 1 and 5 the host with load 1 is
  selected.\<close>

lemma select_best_server_example:
  "select_best_server example_servers example_files ''a.txt'' = Some (cs2_info, 100)"
  by (simp add: select_best_server_def example_servers_def example_files_def example_hosts_def
      cs1_info_def cs2_info_def cs3_info_def)

text \<open>
  C3. When \<open>file_name\<close> is not in the file index, or each of its hosts is missing from
  the registry or registered with status \<open>dead\<close>, \<open>select_best_server\<close> returns
  \<open>None\<close>; and a \<open>GET\<close> request for that file, selecting on such a registry after the
  health refresh, is answered with \<open>ERROR FILE_NOT_FOUND\<close>.
\<close>

theorem dead_hosts_not_found:
  assumes "map_of fi file_name = None \<or>
           (\<exists>hosts. map_of fi file_name = Some hosts \<and>
              (\<forall>(sid, sz) \<in> set hosts.
                 map_of cs sid = None \<or> (\<exists>r. map_of cs sid = Some r \<and> status r = ''dead'')))"
  shows "select_best_server cs fi file_name = None \<and>
         (startswith message ''GET'' \<and> length (split message) \<ge> 2
            \<and> split message ! 1 = file_name
            \<and> fst (get_server_health_from_monitor (content_servers st) link) = cs
            \<and> file_index st = fi
          \<longrightarrow> snd (handle_client_message link message st) = [''ERROR FILE_NOT_FOUND\<newline>''])"
proof -
  have sel: "select_best_server cs fi file_name = None"
    using assms by (auto simp: select_best_server_def candidates_none)
  then show ?thesis
    by (auto simp: handle_client_message_def Let_def dest: startswith_GET_not_HELLO)
qed

theorem dead_hosts_not_found_witness:
  "select_best_server dead_servers example_files ''a.txt'' = None
   \<and> snd (handle_client_message Unreachable ''GET a.txt''
        \<lparr>content_servers = dead_servers, file_index = example_files\<rparr>)
       = [''ERROR FILE_NOT_FOUND\<newline>'']"
proof -
  have h: "map_of example_files ''a.txt'' = None \<or>
           (\<exists>hosts. map_of example_files ''a.txt'' = Some hosts \<and>
              (\<forall>(sid, sz) \<in> set hosts.
                 map_of dead_servers sid = None
                 \<or> (\<exists>r. map_of dead_servers sid = Some r \<and> status r = ''dead'')))"
    by (simp add: example_files_def example_hosts_def dead_servers_def)
  have g: "startswith ''GET a.txt'' ''GET'' \<and> length (split ''GET a.txt'') \<ge> 2
           \<and> split ''GET a.txt'' ! 1 = ''a.txt''"
    by (simp add: tok_simps)
  have r: "fst (get_server_health_from_monitor dead_servers Unreachable) = dead_servers"
    by (simp add: get_server_health_from_monitor_def)
  from dead_hosts_not_found [OF h, of "''GET a.txt''"
      "\<lparr>content_servers = dead_servers, file_index = example_files\<rparr>" Unreachable] g r
  show ?thesis by simp
qed

text \<open>
  C5. When the monitor cannot be reached, \<open>get_server_health_from_monitor\<close> returns
  \<open>False\<close> and leaves the registry as it was, and the \<open>GET\<close> request is still
  answered: with the reply for the server that \<open>select_best_server\<close> picks from the
  unchanged registry, or with \<open>ERROR FILE_NOT_FOUND\<close> when it picks none.
\<close>

theorem refresh_failure_non_fatal:
  "get_server_health_from_monitor cs Unreachable = (cs, False) \<and>
   (startswith message ''GET'' \<and> length (split message) \<ge> 2 \<longrightarrow>
      handle_client_message Unreachable message st =
        (st, [case select_best_server (content_servers st) (file_index st) (split message ! 1) of
                None \<Rightarrow> ''ERROR FILE_NOT_FOUND\<newline>''
              | Some (server, file_size) \<Rightarrow> server_reply (content_servers st) server file_size]))"
  by (auto simp: handle_client_message_def get_server_health_from_monitor_def Let_def
           split: option.splits dest: startswith_GET_not_HELLO)

theorem refresh_failure_non_fatal_witness:
  "get_server_health_from_monitor example_servers Unreachable = (example_servers, False) \<and>
   handle_client_message Unreachable ''GET a.txt''
       \<lparr>content_servers = example_servers, file_index = example_files\<rparr>
     = (\<lparr>content_servers = example_servers, file_index = example_files\<rparr>,
        [''SERVER 10.0.0.2 7011 CS2 100\<newline>''])"
proof -
  have g: "startswith ''GET a.txt'' ''GET'' \<and> length (split ''GET a.txt'') \<ge> 2"
    by (simp add: tok_simps)
  have p: "split ''GET a.txt'' ! 1 = ''a.txt''"
    by (simp add: tok_simps)
  have s: "select_best_server example_servers example_files ''a.txt'' = Some (cs2_info, 100)"
    by (simp add: select_best_server_def example_servers_def example_files_def
        example_hosts_def cs1_info_def cs2_info_def cs3_info_def)
  have r: "server_reply example_servers cs2_info 100 = ''SERVER 10.0.0.2 7011 CS2 100\<newline>''"
    by (simp add: server_reply_def example_servers_def cs1_info_def cs2_info_def cs3_info_def
        tok_simps)
  from refresh_failure_non_fatal [of example_servers "''GET a.txt''"
      "\<lparr>content_servers = example_servers, file_index = example_files\<rparr>"] g p s r
  show ?thesis by simp
qed

section \<open>File index\<close>

text \<open>
  C6. \<open>add_file\<close> for a server id that already has an entry under the file name changes
  nothing. Every sequence of \<open>add_file\<close> calls keeps the file index at one entry at most
  per file name and server id, from the empty index in particular. Two identical calls
  with a valid size, for a pair that had no entry, leave exactly one entry of that server
  for the file, with that size.
\<close>

theorem add_file_at_most_one_entry:
  "(map_of fi f = Some hosts \<and> (sid, z) \<in> set hosts \<longrightarrow> add_file sid f tok fi = (fi, True))
   \<and> (one_entry_per_pair fi \<longrightarrow> one_entry_per_pair (add_files calls fi))
   \<and> one_entry_per_pair (add_files calls [])
   \<and> (py_int tok = Some n \<and> (\<forall>hs. map_of fi f = Some hs \<longrightarrow> sid \<notin> fst ` set hs) \<longrightarrow>
        (\<exists>hosts2. map_of (add_files [(sid, f, tok), (sid, f, tok)] fi) f = Some hosts2
           \<and> filter (\<lambda>(s, sz). s = sid) hosts2 = [(sid, n)]))"
proof -
  have a: "add_file sid f tok fi = (fi, True)" if "map_of fi f = Some hosts" "(sid, z) \<in> set hosts"
    using that by (rule add_file_existing)
  have b: "one_entry_per_pair (add_files calls fi)" if "one_entry_per_pair fi"
    using that by (rule add_files_preserve)
  have c: "one_entry_per_pair (add_files calls [])"
    by (rule add_files_preserve) (simp add: one_entry_per_pair_def)
  have d: "\<exists>hosts2. map_of (add_files [(sid, f, tok), (sid, f, tok)] fi) f = Some hosts2
             \<and> filter (\<lambda>(s, sz). s = sid) hosts2 = [(sid, n)]"
    if p: "py_int tok = Some n" and q: "\<forall>hs. map_of fi f = Some hs \<longrightarrow> sid \<notin> fst ` set hs"
  proof -
    from add_file_new [OF p q] obtain hosts1 where
      n1: "sid \<notin> fst ` set hosts1"
      and m1: "map_of (fst (add_file sid f tok fi)) f = Some (hosts1 @ [(sid, n)])" by blast
    have "add_file sid f tok (fst (add_file sid f tok fi)) = (fst (add_file sid f tok fi), True)"
      by (rule add_file_existing [OF m1, of sid n]) simp
    then have "map_of (add_files [(sid, f, tok), (sid, f, tok)] fi) f = Some (hosts1 @ [(sid, n)])"
      using m1 by simp
    moreover from n1 have "filter (\<lambda>(s, sz). s = sid) (hosts1 @ [(sid, n)]) = [(sid, n)]"
      by (force simp: filter_empty_conv)
    ultimately show ?thesis by blast
  qed
  from a b c d show ?thesis by blast
qed

theorem add_file_at_most_one_entry_witness:
  "add_file ''CS1'' ''a.txt'' ''999'' example_files = (example_files, True)
   \<and> one_entry_per_pair example_files
   \<and> one_entry_per_pair
        (add_files [(''CS1'', ''a.txt'', ''100''), (''CS4'', ''a.txt'', ''x''),
                    (''CS4'', ''b.txt'', ''7'')] example_files)
   \<and> (\<exists>hosts2. map_of (add_files [(''CS4'', ''a.txt'', ''50''), (''CS4'', ''a.txt'', ''50'')]
                    example_files) ''a.txt'' = Some hosts2
         \<and> filter (\<lambda>(s, sz). s = ''CS4'') hosts2 = [(''CS4'', 50)])"
proof -
  have h1: "map_of example_files ''a.txt'' = Some example_hosts \<and> (''CS1'', 100) \<in> set example_hosts"
    by (simp add: example_files_def example_hosts_def)
  have h2: "one_entry_per_pair example_files"
    by (simp add: one_entry_per_pair_def example_files_def example_hosts_def)
  have h3: "py_int ''50'' = Some 50
            \<and> (\<forall>hs. map_of example_files ''a.txt'' = Some hs \<longrightarrow> ''CS4'' \<notin> fst ` set hs)"
    by (simp add: example_files_def example_hosts_def tok_simps)
  from add_file_at_most_one_entry [of example_files "''a.txt''" example_hosts "''CS1''" 100
      "''999''" "[(''CS1'', ''a.txt'', ''100''), (''CS4'', ''a.txt'', ''x''),
                  (''CS4'', ''b.txt'', ''7'')]"] h1 h2
  have a: "add_file ''CS1'' ''a.txt'' ''999'' example_files = (example_files, True)
           \<and> one_entry_per_pair
                (add_files [(''CS1'', ''a.txt'', ''100''), (''CS4'', ''a.txt'', ''x''),
                            (''CS4'', ''b.txt'', ''7'')] example_files)"
    by blast
  from add_file_at_most_one_entry [of example_files "''a.txt''" _ "''CS4''" _ "''50''" _ 50] h3
  have b: "\<exists>hosts2. map_of (add_files [(''CS4'', ''a.txt'', ''50''), (''CS4'', ''a.txt'', ''50'')]
                       example_files) ''a.txt'' = Some hosts2
             \<and> filter (\<lambda>(s, sz). s = ''CS4'') hosts2 = [(''CS4'', 50)]"
    by blast
  from a b h2 show ?thesis by blast
qed

section \<open>Registration\<close>

text \<open>
  C7. A \<open>REGISTER\<close> line with a server id and two integer ports stores, under that id,
  the record with the address of the connection, the two ports, load 0, the current time
  as \<open>last_update\<close> and status \<open>alive\<close>, whatever was stored under the id before; the
  other entries of the registry and the file index stay as they are.
\<close>

theorem register_resets_record:
  assumes "startswith line ''REGISTER''" and "length (split line) \<ge> 4"
      and "split line ! 1 = server_id"
      and "py_int (split line ! 2) = Some tp" and "py_int (split line ! 3) = Some up"
  shows "handle_content_server_line addr_ip now line st =
           (st\<lparr>content_servers :=
                 AList.update server_id
                   \<lparr>ip = addr_ip, tcp_port = tp, udp_port = up, load = 0, last_update = now,
                    status = ''alive''\<rparr> (content_servers st)\<rparr>,
            [''OK REGISTERED\<newline>''], True)
         \<and> map_of (content_servers (fst (handle_content_server_line addr_ip now line st))) server_id
             = Some \<lparr>ip = addr_ip, tcp_port = tp, udp_port = up, load = 0, last_update = now,
                     status = ''alive''\<rparr>
         \<and> (\<forall>other. other \<noteq> server_id \<longrightarrow>
               map_of (content_servers (fst (handle_content_server_line addr_ip now line st))) other
                 = map_of (content_servers st) other)
         \<and> file_index (fst (handle_content_server_line addr_ip now line st)) = file_index st"
  using assms
  by (simp add: handle_content_server_line_def register_def Let_def update_conv')

theorem register_resets_record_witness:
  "map_of worn_servers ''CS1'' = Some (cs1_info\<lparr>load := 7, status := ''dead''\<rparr>)
   \<and> map_of (content_servers (fst (handle_content_server_line ''10.0.0.1'' 200
        ''REGISTER CS1 7001 7002'' \<lparr>content_servers = worn_servers, file_index = example_files\<rparr>)))
        ''CS1''
       = Some \<lparr>ip = ''10.0.0.1'', tcp_port = 7001, udp_port = 7002, load = 0, last_update = 200,
               status = ''alive''\<rparr>
   \<and> map_of (content_servers (fst (handle_content_server_line ''10.0.0.1'' 200
        ''REGISTER CS1 7001 7002'' \<lparr>content_servers = worn_servers, file_index = example_files\<rparr>)))
        ''CS2''
       = Some cs2_info
   \<and> fst (snd (handle_content_server_line ''10.0.0.1'' 200
        ''REGISTER CS1 7001 7002'' \<lparr>content_servers = worn_servers, file_index = example_files\<rparr>))
       = [''OK REGISTERED\<newline>'']"
proof -
  have h1: "startswith ''REGISTER CS1 7001 7002'' ''REGISTER''"
    by (simp add: tok_simps)
  have h2: "length (split ''REGISTER CS1 7001 7002'') \<ge> 4"
    by (simp add: tok_simps)
  have h3: "split ''REGISTER CS1 7001 7002'' ! 1 = ''CS1''"
    by (simp add: tok_simps)
  have h4: "py_int (split ''REGISTER CS1 7001 7002'' ! 2) = Some 7001"
    by (simp add: tok_simps)
  have h5: "py_int (split ''REGISTER CS1 7001 7002'' ! 3) = Some 7002"
    by (simp add: tok_simps)
  have w: "map_of worn_servers ''CS1'' = Some (cs1_info\<lparr>load := 7, status := ''dead''\<rparr>)"
    by (simp add: worn_servers_def)
  have w2: "map_of worn_servers ''CS2'' = Some cs2_info"
    by (simp add: worn_servers_def)
  have ne: "''CS2'' \<noteq> ''CS1''"
    by simp
  note t = register_resets_record [OF h1 h2 h3 h4 h5, of "''10.0.0.1''" 200
      "\<lparr>content_servers = worn_servers, file_index = example_files\<rparr>"]
  note a = t [THEN conjunct2, THEN conjunct1]
  note b = t [THEN conjunct2, THEN conjunct2, THEN conjunct1, rule_format, OF ne]
  have c: "fst (snd (handle_content_server_line ''10.0.0.1'' 200
        ''REGISTER CS1 7001 7002'' \<lparr>content_servers = worn_servers, file_index = example_files\<rparr>))
       = [''OK REGISTERED\<newline>'']"
    by (simp only: t [THEN conjunct1] fst_conv snd_conv)
  from b w2 have b': "map_of (content_servers (fst (handle_content_server_line ''10.0.0.1'' 200
        ''REGISTER CS1 7001 7002'' \<lparr>content_servers = worn_servers, file_index = example_files\<rparr>)))
        ''CS2'' = Some cs2_info"
    by (simp only: index_state.simps)
  show ?thesis
    by (intro conjI) (rule w, rule a, rule b', rule c)
qed

section \<open>Malformed and unknown requests\<close>

lemma startswith_ADD_FILE_not_REGISTER:
  "startswith line ''ADD_FILE'' \<Longrightarrow> \<not> startswith line ''REGISTER''"
  by (auto simp: startswith_def prefix_def)

lemma startswith_REGISTER_INDEX_not_LIST:
  "startswith m ''REGISTER_INDEX'' \<Longrightarrow> m \<noteq> ''LIST_SERVERS''"
  by (auto simp: startswith_def)

text \<open>
  C8, as the code has it. \<open>ERROR INVALID_FORMAT\<close> is the reply to a \<open>REGISTER\<close> line
  with fewer than 4 tokens on the registration connection, to a \<open>GET\<close> without a file
  argument at the index server and at the content server, and to a \<open>REGISTER_INDEX\<close>
  with fewer than 3 tokens at the monitor; none of them changes the state. An
  \<open>ADD_FILE\<close> line with fewer than 4 tokens is skipped without a reply, and a
  \<open>REGISTER\<close> whose port field is not an integer gets no reply: the exception ends
  the connection with the registry unchanged.
\<close>

theorem malformed_request_replies:
  "(startswith line ''REGISTER'' \<and> length (split line) < 4 \<longrightarrow>
      handle_content_server_line addr_ip now line st = (st, [''ERROR INVALID_FORMAT\<newline>''], True))
   \<and> (startswith message ''GET'' \<and> length (split message) < 2 \<longrightarrow>
      handle_client_message link message st = (st, [''ERROR INVALID_FORMAT\<newline>'']))
   \<and> (data \<noteq> [] \<and> startswith (strip data) ''GET'' \<and> length (split (strip data)) < 2 \<longrightarrow>
      content_handle_client files disk (Text data) = ([''ERROR INVALID_FORMAT\<newline>''], True))
   \<and> (startswith m ''REGISTER_INDEX'' \<and> length (split m) < 3 \<longrightarrow>
      handle_tcp_message m mst = (mst, [''ERROR INVALID_FORMAT\<newline>''], True))
   \<and> (startswith line ''ADD_FILE'' \<and> length (split line) < 4 \<longrightarrow>
      handle_content_server_line addr_ip now line st = (st, [], True))
   \<and> (startswith line ''REGISTER'' \<and> length (split line) \<ge> 4
        \<and> (py_int (split line ! 2) = None \<or> py_int (split line ! 3) = None) \<longrightarrow>
      handle_content_server_line addr_ip now line st = (st, [], False))"
proof -
  have a: "handle_content_server_line addr_ip now line st = (st, [''ERROR INVALID_FORMAT\<newline>''], True)"
    if "startswith line ''REGISTER''" "length (split line) < 4"
    using that by (simp add: handle_content_server_line_def Let_def)
  have b: "handle_client_message link message st = (st, [''ERROR INVALID_FORMAT\<newline>''])"
    if "startswith message ''GET''" "length (split message) < 2"
    using that by (simp add: handle_client_message_def Let_def startswith_GET_not_HELLO)
  have c: "content_handle_client files disk (Text data) = ([''ERROR INVALID_FORMAT\<newline>''], True)"
    if "data \<noteq> []" "startswith (strip data) ''GET''" "length (split (strip data)) < 2"
    using that by (simp add: content_handle_client_def Let_def)
  have d: "handle_tcp_message m mst = (mst, [''ERROR INVALID_FORMAT\<newline>''], True)"
    if "startswith m ''REGISTER_INDEX''" "length (split m) < 3"
    using that by (simp add: handle_tcp_message_def Let_def startswith_REGISTER_INDEX_not_LIST)
  have e: "handle_content_server_line addr_ip now line st = (st, [], True)"
    if "startswith line ''ADD_FILE''" "length (split line) < 4"
    using that by (simp add: handle_content_server_line_def Let_def startswith_ADD_FILE_not_REGISTER)
  have f: "handle_content_server_line addr_ip now line st = (st, [], False)"
    if "startswith line ''REGISTER''" "length (split line) \<ge> 4"
       "py_int (split line ! 2) = None \<or> py_int (split line ! 3) = None"
    using that by (auto simp: handle_content_server_line_def Let_def register_def split: option.splits)
  from a b c d e f show ?thesis by blast
qed

text \<open>The claim as stated fails: a short \<open>ADD_FILE\<close> and a \<open>REGISTER\<close> with a port
  that is not a number are not answered at all.\<close>

theorem malformed_request_counterexample:
  "length (split ''ADD_FILE CS1 a.txt'') = 3
   \<and> handle_content_server_line ''10.0.0.1'' 100 ''ADD_FILE CS1 a.txt''
       \<lparr>content_servers = [], file_index = []\<rparr>
     = (\<lparr>content_servers = [], file_index = []\<rparr>, [], True)
   \<and> py_int ''http'' = None
   \<and> handle_content_server_line ''10.0.0.1'' 100 ''REGISTER CS1 http 7002''
       \<lparr>content_servers = [], file_index = []\<rparr>
     = (\<lparr>content_servers = [], file_index = []\<rparr>, [], False)"
  by (simp add: handle_content_server_line_def Let_def register_def tok_simps)

theorem malformed_request_replies_witness:
  "handle_content_server_line ''10.0.0.1'' 100 ''REGISTER CS1 7001''
       \<lparr>content_servers = [], file_index = []\<rparr>
     = (\<lparr>content_servers = [], file_index = []\<rparr>, [''ERROR INVALID_FORMAT\<newline>''], True)
   \<and> handle_client_message Unreachable ''GET'' \<lparr>content_servers = [], file_index = []\<rparr>
     = (\<lparr>content_servers = [], file_index = []\<rparr>, [''ERROR INVALID_FORMAT\<newline>''])
   \<and> content_handle_client [(''a.txt'', 3)] [''a.txt'' \<mapsto> ''abc''] (Text ''GET\<newline>'')
     = ([''ERROR INVALID_FORMAT\<newline>''], True)
   \<and> handle_tcp_message ''REGISTER_INDEX localhost'' \<lparr>servers = [], index_server_addr = None\<rparr>
     = (\<lparr>servers = [], index_server_addr = None\<rparr>, [''ERROR INVALID_FORMAT\<newline>''], True)
   \<and> handle_content_server_line ''10.0.0.1'' 100 ''ADD_FILE CS1 b.txt''
       \<lparr>content_servers = [], file_index = []\<rparr>
     = (\<lparr>content_servers = [], file_index = []\<rparr>, [], True)
   \<and> handle_content_server_line ''10.0.0.1'' 100 ''REGISTER CS1 7001 udp''
       \<lparr>content_servers = [], file_index = []\<rparr>
     = (\<lparr>content_servers = [], file_index = []\<rparr>, [], False)"
proof -
  let ?st = "\<lparr>content_servers = [], file_index = []\<rparr>"
  have h1: "startswith ''REGISTER CS1 7001'' ''REGISTER'' \<and> length (split ''REGISTER CS1 7001'') < 4"
    by (simp add: tok_simps)
  have h2: "startswith ''GET'' ''GET'' \<and> length (split ''GET'') < 2"
    by (simp add: tok_simps)
  have h3: "''GET\<newline>'' \<noteq> [] \<and> startswith (strip ''GET\<newline>'') ''GET''
            \<and> length (split (strip ''GET\<newline>'')) < 2"
    by (simp add: tok_simps)
  have h4: "startswith ''REGISTER_INDEX localhost'' ''REGISTER_INDEX''
            \<and> length (split ''REGISTER_INDEX localhost'') < 3"
    by (simp add: tok_simps)
  have h5: "startswith ''ADD_FILE CS1 b.txt'' ''ADD_FILE'' \<and> length (split ''ADD_FILE CS1 b.txt'') < 4"
    by (simp add: tok_simps)
  have h6: "startswith ''REGISTER CS1 7001 udp'' ''REGISTER''
            \<and> length (split ''REGISTER CS1 7001 udp'') \<ge> 4
            \<and> (py_int (split ''REGISTER CS1 7001 udp'' ! 2) = None
                \<or> py_int (split ''REGISTER CS1 7001 udp'' ! 3) = None)"
    by (simp add: tok_simps)
  note t = malformed_request_replies
  from t [of "''REGISTER CS1 7001''" "''10.0.0.1''" 100 ?st] h1
  have a: "handle_content_server_line ''10.0.0.1'' 100 ''REGISTER CS1 7001'' ?st
     = (?st, [''ERROR INVALID_FORMAT\<newline>''], True)"
    by blast
  from t [of _ _ _ ?st "''GET''" Unreachable] h2
  have b: "handle_client_message Unreachable ''GET'' ?st = (?st, [''ERROR INVALID_FORMAT\<newline>''])"
    by blast
  from t [of _ _ _ _ _ _ "''GET\<newline>''" "[(''a.txt'', 3)]" "[''a.txt'' \<mapsto> ''abc'']"] h3
  have c: "content_handle_client [(''a.txt'', 3)] [''a.txt'' \<mapsto> ''abc''] (Text ''GET\<newline>'')
     = ([''ERROR INVALID_FORMAT\<newline>''], True)"
    by blast
  from t [of _ _ _ _ _ _ _ _ _ "''REGISTER_INDEX localhost''" "\<lparr>servers = [], index_server_addr = None\<rparr>"] h4
  have d: "handle_tcp_message ''REGISTER_INDEX localhost'' \<lparr>servers = [], index_server_addr = None\<rparr>
     = (\<lparr>servers = [], index_server_addr = None\<rparr>, [''ERROR INVALID_FORMAT\<newline>''], True)"
    by blast
  from t [of "''ADD_FILE CS1 b.txt''" "''10.0.0.1''" 100 ?st] h5
  have e: "handle_content_server_line ''10.0.0.1'' 100 ''ADD_FILE CS1 b.txt'' ?st = (?st, [], True)"
    by blast
  from t [of "''REGISTER CS1 7001 udp''" "''10.0.0.1''" 100 ?st] h6
  have f: "handle_content_server_line ''10.0.0.1'' 100 ''REGISTER CS1 7001 udp'' ?st
     = (?st, [], False)"
    by blast
  from a b c d e f show ?thesis by blast
qed

text \<open>
  C9, as the code has it. A request that decodes as UTF-8, is none of the exactly matched
  commands and does not begin with the letters of a prefix-matched command (\<open>GET\<close>;
  \<open>REGISTER_INDEX\<close> at the monitor) is answered with \<open>ERROR UNKNOWN_COMMAND\<close> and
  changes nothing. The client handler of the index server and the TCP handler of the
  monitor then go on with the next request of the connection, from the same state; the
  content server closes the connection after its one reply. A request whose bytes do not
  decode is answered by none of the three handlers: nothing is sent, the state stays as it
  is and the connection is closed.
\<close>

theorem unknown_command_replies:
  "(message \<noteq> ''HELLO'' \<and> \<not> startswith message ''GET'' \<and> message \<noteq> ''LIST_FILES''
      \<and> message \<noteq> ''LIST_SERVERS'' \<longrightarrow>
      handle_client_message link message st = (st, [''ERROR UNKNOWN_COMMAND\<newline>'']))
   \<and> (data \<noteq> [] \<and> strip data \<noteq> ''HELLO'' \<and> \<not> startswith (strip data) ''GET''
      \<and> strip data \<noteq> ''LIST_FILES'' \<and> strip data \<noteq> ''LIST_SERVERS'' \<longrightarrow>
      handle_client ((link, Text data) # rest) st =
        (fst (handle_client rest st), ''ERROR UNKNOWN_COMMAND\<newline>'' # snd (handle_client rest st)))
   \<and> handle_client ((link, Undecodable) # rest) st = (st, [])
   \<and> (m \<noteq> ''LIST_SERVERS'' \<and> \<not> startswith m ''REGISTER_INDEX'' \<and> m \<noteq> ''PING'' \<longrightarrow>
      handle_tcp_message m mst = (mst, [''ERROR UNKNOWN_COMMAND\<newline>''], True))
   \<and> (mdata \<noteq> [] \<and> strip mdata \<noteq> ''LIST_SERVERS'' \<and> \<not> startswith (strip mdata) ''REGISTER_INDEX''
      \<and> strip mdata \<noteq> ''PING'' \<longrightarrow>
      handle_tcp_client (Text mdata # mrest) mst =
        (fst (handle_tcp_client mrest mst),
         ''ERROR UNKNOWN_COMMAND\<newline>'' # snd (handle_tcp_client mrest mst)))
   \<and> handle_tcp_client (Undecodable # mrest) mst = (mst, [])
   \<and> (cdata \<noteq> [] \<and> \<not> startswith (strip cdata) ''GET'' \<longrightarrow>
      content_handle_client files disk (Text cdata) = ([''ERROR UNKNOWN_COMMAND\<newline>''], True))
   \<and> content_handle_client files disk Undecodable = ([], False)"
proof -
  have a: "handle_client_message link message st = (st, [''ERROR UNKNOWN_COMMAND\<newline>''])"
    if "message \<noteq> ''HELLO''" "\<not> startswith message ''GET''" "message \<noteq> ''LIST_FILES''"
       "message \<noteq> ''LIST_SERVERS''" for message
    using that by (simp add: handle_client_message_def)
  have b: "handle_client ((link, Text data) # rest) st =
        (fst (handle_client rest st), ''ERROR UNKNOWN_COMMAND\<newline>'' # snd (handle_client rest st))"
    if "data \<noteq> []" "strip data \<noteq> ''HELLO''" "\<not> startswith (strip data) ''GET''"
       "strip data \<noteq> ''LIST_FILES''" "strip data \<noteq> ''LIST_SERVERS''"
    using that a [of "strip data"] by (simp split: prod.splits)
  have b': "handle_client ((link, Undecodable) # rest) st = (st, [])"
    by simp
  have c: "handle_tcp_message m mst = (mst, [''ERROR UNKNOWN_COMMAND\<newline>''], True)"
    if "m \<noteq> ''LIST_SERVERS''" "\<not> startswith m ''REGISTER_INDEX''" "m \<noteq> ''PING''" for m
    using that by (simp add: handle_tcp_message_def)
  have d: "handle_tcp_client (Text mdata # mrest) mst =
        (fst (handle_tcp_client mrest mst),
         ''ERROR UNKNOWN_COMMAND\<newline>'' # snd (handle_tcp_client mrest mst))"
    if "mdata \<noteq> []" "strip mdata \<noteq> ''LIST_SERVERS''" "\<not> startswith (strip mdata) ''REGISTER_INDEX''"
       "strip mdata \<noteq> ''PING''"
    using that c [of "strip mdata"] by (simp split: prod.splits)
  have d': "handle_tcp_client (Undecodable # mrest) mst = (mst, [])"
    by simp
  have e: "content_handle_client files disk (Text cdata) = ([''ERROR UNKNOWN_COMMAND\<newline>''], True)"
    if "cdata \<noteq> []" "\<not> startswith (strip cdata) ''GET''"
    using that by (simp add: content_handle_client_def Let_def)
  have e': "content_handle_client files disk Undecodable = ([], False)"
    by (simp add: content_handle_client_def)
  from a [of message] b b' c [of m] d d' e e' show ?thesis by blast
qed

text \<open>The claim as stated fails: \<open>GETX\<close> and \<open>REGISTER_INDEXES\<close> are not commands,
  yet a request that starts with them is served as \<open>GET\<close> and \<open>REGISTER_INDEX\<close>.\<close>

theorem unknown_command_counterexample:
  "hd (split ''GETX a.txt'') = ''GETX''
   \<and> handle_client_message Unreachable ''GETX a.txt'' \<lparr>content_servers = [], file_index = []\<rparr>
     = (\<lparr>content_servers = [], file_index = []\<rparr>, [''ERROR FILE_NOT_FOUND\<newline>''])
   \<and> handle_client [(Unreachable, Text ''GETX a.txt\<newline>'')] \<lparr>content_servers = [], file_index = []\<rparr>
     = (\<lparr>content_servers = [], file_index = []\<rparr>, [''ERROR FILE_NOT_FOUND\<newline>''])
   \<and> content_handle_client [(''a.txt'', 3)] [''a.txt'' \<mapsto> ''abc''] (Text ''GETX a.txt\<newline>'')
     = ([''OK 3\<newline>'', ''abc''], True)
   \<and> hd (split ''REGISTER_INDEXES 10.0.0.9 5001'') = ''REGISTER_INDEXES''
   \<and> handle_tcp_message ''REGISTER_INDEXES 10.0.0.9 5001'' \<lparr>servers = [], index_server_addr = None\<rparr>
     = (\<lparr>servers = [], index_server_addr = Some (''10.0.0.9'', 5001)\<rparr>,
        [''OK INDEX_REGISTERED\<newline>''], True)"
  by (simp add: handle_client_message_def content_handle_client_def handle_tcp_message_def
      get_server_health_from_monitor_def select_best_server_def Let_def tok_simps)

theorem unknown_command_replies_witness:
  "handle_client_message Unreachable ''FOO bar'' \<lparr>content_servers = [], file_index = []\<rparr>
     = (\<lparr>content_servers = [], file_index = []\<rparr>, [''ERROR UNKNOWN_COMMAND\<newline>''])
   \<and> handle_client [(Unreachable, Text ''FOO bar\<newline>''), (Unreachable, Text ''HELLO\<newline>'')]
        \<lparr>content_servers = [], file_index = []\<rparr>
     = (\<lparr>content_servers = [], file_index = []\<rparr>,
        [''ERROR UNKNOWN_COMMAND\<newline>'', ''WELCOME MICRO-CDN\<newline>''])
   \<and> handle_client [(Unreachable, Undecodable), (Unreachable, Text ''HELLO\<newline>'')]
        \<lparr>content_servers = [], file_index = []\<rparr>
     = (\<lparr>content_servers = [], file_index = []\<rparr>, [])
   \<and> handle_tcp_message ''STATUS'' \<lparr>servers = [], index_server_addr = None\<rparr>
     = (\<lparr>servers = [], index_server_addr = None\<rparr>, [''ERROR UNKNOWN_COMMAND\<newline>''], True)
   \<and> handle_tcp_client [Text ''STATUS\<newline>'', Text ''PING\<newline>'']
        \<lparr>servers = [], index_server_addr = None\<rparr>
     = (\<lparr>servers = [], index_server_addr = None\<rparr>, [''ERROR UNKNOWN_COMMAND\<newline>'', ''PONG\<newline>''])
   \<and> handle_tcp_client [Undecodable, Text ''PING\<newline>''] \<lparr>servers = [], index_server_addr = None\<rparr>
     = (\<lparr>servers = [], index_server_addr = None\<rparr>, [])
   \<and> content_handle_client [(''a.txt'', 3)] [''a.txt'' \<mapsto> ''abc''] (Text ''PUT a.txt\<newline>'')
     = ([''ERROR UNKNOWN_COMMAND\<newline>''], True)
   \<and> content_handle_client [(''a.txt'', 3)] [''a.txt'' \<mapsto> ''abc''] Undecodable = ([], False)"
proof -
  let ?st = "\<lparr>content_servers = [], file_index = []\<rparr>"
  let ?mst = "\<lparr>servers = [], index_server_addr = None\<rparr>"
  have h1: "''FOO bar'' \<noteq> ''HELLO'' \<and> \<not> startswith ''FOO bar'' ''GET'' \<and> ''FOO bar'' \<noteq> ''LIST_FILES''
      \<and> ''FOO bar'' \<noteq> ''LIST_SERVERS''"
    by (simp add: tok_simps)
  have h2: "''FOO bar\<newline>'' \<noteq> [] \<and> strip ''FOO bar\<newline>'' \<noteq> ''HELLO''
      \<and> \<not> startswith (strip ''FOO bar\<newline>'') ''GET''
      \<and> strip ''FOO bar\<newline>'' \<noteq> ''LIST_FILES'' \<and> strip ''FOO bar\<newline>'' \<noteq> ''LIST_SERVERS''"
    by (simp add: tok_simps)
  have h3: "''STATUS'' \<noteq> ''LIST_SERVERS'' \<and> \<not> startswith ''STATUS'' ''REGISTER_INDEX''
      \<and> ''STATUS'' \<noteq> ''PING''"
    by (simp add: tok_simps)
  have h4: "''STATUS\<newline>'' \<noteq> [] \<and> strip ''STATUS\<newline>'' \<noteq> ''LIST_SERVERS''
      \<and> \<not> startswith (strip ''STATUS\<newline>'') ''REGISTER_INDEX'' \<and> strip ''STATUS\<newline>'' \<noteq> ''PING''"
    by (simp add: tok_simps)
  have h5: "''PUT a.txt\<newline>'' \<noteq> [] \<and> \<not> startswith (strip ''PUT a.txt\<newline>'') ''GET''"
    by (simp add: tok_simps)
  have r1: "handle_client [(Unreachable, Text ''HELLO\<newline>'')] ?st = (?st, [''WELCOME MICRO-CDN\<newline>''])"
    by (simp add: handle_client_message_def tok_simps)
  have r2: "handle_tcp_client [Text ''PING\<newline>''] ?mst = (?mst, [''PONG\<newline>''])"
    by (simp add: handle_tcp_message_def tok_simps)
  note t = unknown_command_replies [of "''FOO bar''" Unreachable ?st "''FOO bar\<newline>''"
      "[(Unreachable, Text ''HELLO\<newline>'')]" "''STATUS''" ?mst "''STATUS\<newline>''"
      "[Text ''PING\<newline>'']" "''PUT a.txt\<newline>''" "[(''a.txt'', 3)]" "[''a.txt'' \<mapsto> ''abc'']"]
  note a = t [THEN conjunct1, THEN mp, OF h1]
  note t2 = t [THEN conjunct2]
  have b: "handle_client [(Unreachable, Text ''FOO bar\<newline>''),
        (Unreachable, Text ''HELLO\<newline>'')] ?st
      = (?st, [''ERROR UNKNOWN_COMMAND\<newline>'', ''WELCOME MICRO-CDN\<newline>''])"
    by (simp only: t2 [THEN conjunct1, THEN mp, OF h2] r1 fst_conv snd_conv)
  note t3 = t2 [THEN conjunct2]
  note b' = t3 [THEN conjunct1]
  note t4 = t3 [THEN conjunct2]
  note c = t4 [THEN conjunct1, THEN mp, OF h3]
  note t5 = t4 [THEN conjunct2]
  have d: "handle_tcp_client [Text ''STATUS\<newline>'', Text ''PING\<newline>''] ?mst
      = (?mst, [''ERROR UNKNOWN_COMMAND\<newline>'', ''PONG\<newline>''])"
    by (simp only: t5 [THEN conjunct1, THEN mp, OF h4] r2 fst_conv snd_conv)
  note t6 = t5 [THEN conjunct2]
  note d' = t6 [THEN conjunct1]
  note t7 = t6 [THEN conjunct2]
  note e = t7 [THEN conjunct1, THEN mp, OF h5]
  note e' = t7 [THEN conjunct2]
  show ?thesis
    by (intro conjI) (rule a, rule b, rule b', rule c, rule d, rule d', rule e, rule e')
qed

section \<open>Heartbeats\<close>

lemma on_heartbeat_logs:
  "e \<in> set (snd (on_heartbeat now message srv)) \<Longrightarrow>
     e \<noteq> Notify_index_server_failure s \<and> e \<noteq> Sent a m"
  by (auto simp: on_heartbeat_def Let_def split: if_splits option.splits)

lemma listener_Text:
  "udp_heartbeat_listener ((now, Text data) # rest) srv =
     (fst (udp_heartbeat_listener rest (fst (on_heartbeat now (strip data) srv))),
      snd (on_heartbeat now (strip data) srv)
        @ snd (udp_heartbeat_listener rest (fst (on_heartbeat now (strip data) srv))))"
  by (simp split: prod.splits)

lemma listener_logs:
  "e \<in> set (snd (udp_heartbeat_listener dgrams srv)) \<Longrightarrow>
     e \<noteq> Notify_index_server_failure s \<and> e \<noteq> Sent a m"
proof (induction dgrams srv arbitrary: e rule: udp_heartbeat_listener.induct)
  case (1 srv)
  then show ?case by simp
next
  case (2 now rest srv)
  then show ?case by (auto split: prod.splits)
next
  case (3 now data rest srv)
  from "3.prems" have "e \<in> set (snd (on_heartbeat now (strip data) srv))
     \<or> e \<in> set (snd (udp_heartbeat_listener rest (fst (on_heartbeat now (strip data) srv))))"
    by (simp add: listener_Text del: udp_heartbeat_listener.simps)
  then show ?case
  proof
    assume "e \<in> set (snd (on_heartbeat now (strip data) srv))"
    then show ?thesis by (rule on_heartbeat_logs)
  next
    assume "e \<in> set (snd (udp_heartbeat_listener rest (fst (on_heartbeat now (strip data) srv))))"
    then show ?thesis
      using "3.IH" [of "fst (on_heartbeat now (strip data) srv)" "snd (on_heartbeat now (strip data) srv)" e]
      by (cases "on_heartbeat now (strip data) srv") auto
  qed
qed

lemma snd_sweep_Cons:
  "snd (sweep addr net t ((s, i) # rest)) =
     (if hb_status i = ''alive'' \<and> t - last_seen i > HEARTBEAT_TIMEOUT
      then Log_marked_dead s (t - last_seen i)
             # notify_index_server_failure addr s (fst (net s)) (snd (net s))
             @ snd (sweep addr net t rest)
      else snd (sweep addr net t rest))"
  by (simp add: Let_def split: prod.splits)

lemma notify_events:
  "e \<in> set (notify_index_server_failure addr s clock ok) \<Longrightarrow>
     e = Notify_index_server_failure s \<or> (\<exists>a m. e = Sent a m) \<or> e = Log_notified s
     \<or> e = Log_notify_failed"
  by (auto simp: notify_index_server_failure_def split: option.splits if_splits)

lemma sweep_notify_only_timeout:
  "Notify_index_server_failure sid \<in> set (snd (sweep addr net t srv)) \<Longrightarrow>
     \<exists>info. (sid, info) \<in> set srv \<and> hb_status info = ''alive''
        \<and> t - last_seen info > HEARTBEAT_TIMEOUT"
proof (induction srv)
  case Nil
  then show ?case by simp
next
  case (Cons p srv)
  obtain s i where p: "p = (s, i)" by (cases p)
  show ?case
  proof (cases "hb_status i = ''alive'' \<and> t - last_seen i > HEARTBEAT_TIMEOUT")
    case True
    with Cons.prems p have
      "Notify_index_server_failure sid
         \<in> set (notify_index_server_failure addr s (fst (net s)) (snd (net s)))
       \<or> Notify_index_server_failure sid \<in> set (snd (sweep addr net t srv))"
      by (simp add: snd_sweep_Cons del: sweep.simps)
    then show ?thesis
    proof
      assume "Notify_index_server_failure sid
                \<in> set (notify_index_server_failure addr s (fst (net s)) (snd (net s)))"
      then have "s = sid" by (auto dest: notify_events)
      with True p show ?thesis by auto
    next
      assume "Notify_index_server_failure sid \<in> set (snd (sweep addr net t srv))"
      with Cons.IH show ?thesis by auto
    qed
  next
    case False
    with Cons.prems p have "Notify_index_server_failure sid \<in> set (snd (sweep addr net t srv))"
      by (simp add: snd_sweep_Cons del: sweep.simps)
    with Cons.IH show ?thesis by auto
  qed
qed

text \<open>
  C4. A well-formed heartbeat for a server whose record is \<open>dead\<close> stores a record with
  status \<open>alive\<close> and \<open>last_seen\<close> set to the arrival time, and logs that the server
  came back. The heartbeat listener never calls \<open>notify_index_server_failure\<close> and
  sends nothing to the index server, whatever datagrams it receives; a sweep of the
  liveness check calls it only for a record that was \<open>alive\<close> and has timed out.
\<close>

theorem heartbeat_revives_without_notification:
  assumes "startswith message ''HEARTBEAT''" and "length (split message) \<ge> 6"
      and "split message ! 1 = sid"
      and "py_int (split message ! 3) = Some tp"
      and "py_int (split message ! 4) = Some l"
      and "py_int (split message ! 5) = Some n"
      and "map_of srv sid = Some info" and "hb_status info = ''dead''"
  shows "map_of (fst (on_heartbeat now message srv)) sid =
           Some \<lparr>hb_ip = split message ! 2, hb_tcp_port = tp, last_seen = now, hb_load = l,
                 num_files = n, hb_status = ''alive''\<rparr>
         \<and> snd (on_heartbeat now message srv) = [Log_came_back sid]
         \<and> (\<forall>dgrams srv' s a m.
               Notify_index_server_failure s \<notin> set (snd (udp_heartbeat_listener dgrams srv'))
               \<and> Sent a m \<notin> set (snd (udp_heartbeat_listener dgrams srv')))
         \<and> (\<forall>addr net t srv' s.
               Notify_index_server_failure s \<in> set (snd (sweep addr net t srv')) \<longrightarrow>
                 (\<exists>i. (s, i) \<in> set srv' \<and> hb_status i = ''alive''
                    \<and> t - last_seen i > HEARTBEAT_TIMEOUT))"
proof -
  have a: "on_heartbeat now message srv =
             (AList.update sid \<lparr>hb_ip = split message ! 2, hb_tcp_port = tp, last_seen = now,
                hb_load = l, num_files = n, hb_status = ''alive''\<rparr> srv, [Log_came_back sid])"
    using assms by (simp add: on_heartbeat_def Let_def)
  have b: "Notify_index_server_failure s \<notin> set (snd (udp_heartbeat_listener dgrams srv'))
           \<and> Sent a m \<notin> set (snd (udp_heartbeat_listener dgrams srv'))" for dgrams srv' s a m
    using listener_logs [of "Notify_index_server_failure s" dgrams srv' s a m]
      listener_logs [of "Sent a m" dgrams srv' s a m] by blast
  from a b sweep_notify_only_timeout show ?thesis
    by (simp add: update_conv')
qed

theorem heartbeat_revives_without_notification_witness:
  "map_of dead_heartbeats ''CS1'' = Some (hb1_info\<lparr>hb_status := ''dead''\<rparr>)
   \<and> map_of (fst (on_heartbeat 120 ''HEARTBEAT CS1 localhost 7001 0 3'' dead_heartbeats)) ''CS1''
       = Some \<lparr>hb_ip = ''localhost'', hb_tcp_port = 7001, last_seen = 120, hb_load = 0,
               num_files = 3, hb_status = ''alive''\<rparr>
   \<and> snd (on_heartbeat 120 ''HEARTBEAT CS1 localhost 7001 0 3'' dead_heartbeats)
       = [Log_came_back ''CS1'']
   \<and> Notify_index_server_failure ''CS1''
       \<notin> set (snd (udp_heartbeat_listener [(120, Text ''HEARTBEAT CS1 localhost 7001 0 3'')]
                  dead_heartbeats))
   \<and> Notify_index_server_failure ''CS1''
       \<in> set (snd (sweep example_addr example_net 109 example_heartbeats))
   \<and> (\<exists>i. (''CS1'', i) \<in> set example_heartbeats \<and> hb_status i = ''alive''
         \<and> 109 - last_seen i > HEARTBEAT_TIMEOUT)"
proof -
  have h1: "startswith ''HEARTBEAT CS1 localhost 7001 0 3'' ''HEARTBEAT''"
    by (simp add: tok_simps)
  have h2: "length (split ''HEARTBEAT CS1 localhost 7001 0 3'') \<ge> 6"
    by (simp add: tok_simps)
  have h3: "split ''HEARTBEAT CS1 localhost 7001 0 3'' ! 1 = ''CS1''"
    by (simp add: tok_simps)
  have h4: "py_int (split ''HEARTBEAT CS1 localhost 7001 0 3'' ! 3) = Some 7001"
    by (simp add: tok_simps)
  have h5: "py_int (split ''HEARTBEAT CS1 localhost 7001 0 3'' ! 4) = Some 0"
    by (simp add: tok_simps)
  have h6: "py_int (split ''HEARTBEAT CS1 localhost 7001 0 3'' ! 5) = Some 3"
    by (simp add: tok_simps)
  have h7: "map_of dead_heartbeats ''CS1'' = Some (hb1_info\<lparr>hb_status := ''dead''\<rparr>)"
    by (simp add: dead_heartbeats_def)
  have h8: "hb_status (hb1_info\<lparr>hb_status := ''dead''\<rparr>) = ''dead''"
    by simp
  have p: "split ''HEARTBEAT CS1 localhost 7001 0 3'' ! 2 = ''localhost''"
    by (simp add: tok_simps)
  have q: "Notify_index_server_failure ''CS1''
             \<in> set (snd (sweep example_addr example_net 109 example_heartbeats))"
    by (simp add: example_heartbeats_def hb1_info_def hb2_info_def HEARTBEAT_TIMEOUT_def
        notify_index_server_failure_def)
  note t = heartbeat_revives_without_notification [OF h1 h2 h3 h4 h5 h6 h7 h8, of 120]
  from t [THEN conjunct1] p
  have a: "map_of (fst (on_heartbeat 120 ''HEARTBEAT CS1 localhost 7001 0 3'' dead_heartbeats)) ''CS1''
       = Some \<lparr>hb_ip = ''localhost'', hb_tcp_port = 7001, last_seen = 120, hb_load = 0,
               num_files = 3, hb_status = ''alive''\<rparr>"
    by (simp only:)
  note b = t [THEN conjunct2, THEN conjunct1]
  note c = t [THEN conjunct2, THEN conjunct2, THEN conjunct1, rule_format, THEN conjunct1]
  note d = t [THEN conjunct2, THEN conjunct2, THEN conjunct2, rule_format, OF q]
  show ?thesis
    by (intro conjI) (rule h7, rule a, rule b, rule c, rule q, rule d)
qed

text \<open>
  C10, as the code has it. A datagram with fewer than 6 tokens in all, the \<open>HEARTBEAT\<close>
  token counted, or whose \<open>tcp_port\<close>, \<open>load\<close> or \<open>num_files\<close> token is not an
  integer, leaves \<open>servers\<close> as it was, and the listener handles the datagrams that
  follow exactly as it would have without it.
\<close>

theorem malformed_heartbeat_ignored:
  assumes "length (split (strip data)) < 6
           \<or> py_int (split (strip data) ! 3) = None
           \<or> py_int (split (strip data) ! 4) = None
           \<or> py_int (split (strip data) ! 5) = None"
  shows "fst (on_heartbeat now (strip data) srv) = srv
         \<and> udp_heartbeat_listener ((now, Text data) # rest) srv =
             (fst (udp_heartbeat_listener rest srv),
              snd (on_heartbeat now (strip data) srv) @ snd (udp_heartbeat_listener rest srv))"
proof -
  have "fst (on_heartbeat now (strip data) srv) = srv"
    using assms by (auto simp: on_heartbeat_def Let_def split: option.splits)
  then show ?thesis
    by (simp add: listener_Text del: udp_heartbeat_listener.simps)
qed

text \<open>The claim as stated fails: the heartbeat that a content server sends has 5 tokens
  after \<open>HEARTBEAT\<close>, fewer than 6, and it is stored.\<close>

theorem malformed_heartbeat_counterexample:
  "split ''HEARTBEAT CS1 localhost 7001 0 3''
     = [''HEARTBEAT'', ''CS1'', ''localhost'', ''7001'', ''0'', ''3'']
   \<and> length (tl (split ''HEARTBEAT CS1 localhost 7001 0 3'')) = 5
   \<and> udp_heartbeat_listener [(120, Text ''HEARTBEAT CS1 localhost 7001 0 3'')] []
     = ([(''CS1'', \<lparr>hb_ip = ''localhost'', hb_tcp_port = 7001, last_seen = 120, hb_load = 0,
                   num_files = 3, hb_status = ''alive''\<rparr>)],
        [Log_heartbeat ''CS1'' ''0'' ''3''])"
  by (simp add: on_heartbeat_def Let_def tok_simps)

theorem malformed_heartbeat_ignored_witness:
  "fst (on_heartbeat 120 (strip ''HEARTBEAT CS1 localhost'') example_heartbeats)
     = example_heartbeats
   \<and> udp_heartbeat_listener
       [(120, Text ''HEARTBEAT CS1 localhost 7001 busy 3''),
        (121, Text ''HEARTBEAT CS2 localhost 7011 4 3'')] example_heartbeats
     = ([(''CS1'', hb1_info),
         (''CS2'', \<lparr>hb_ip = ''localhost'', hb_tcp_port = 7011, last_seen = 121, hb_load = 4,
                    num_files = 3, hb_status = ''alive''\<rparr>)],
        [Log_heartbeat_error, Log_heartbeat ''CS2'' ''4'' ''3''])"
proof -
  have h1: "length (split (strip ''HEARTBEAT CS1 localhost'')) < 6
           \<or> py_int (split (strip ''HEARTBEAT CS1 localhost'') ! 3) = None
           \<or> py_int (split (strip ''HEARTBEAT CS1 localhost'') ! 4) = None
           \<or> py_int (split (strip ''HEARTBEAT CS1 localhost'') ! 5) = None"
    by (simp add: tok_simps)
  have h2: "length (split (strip ''HEARTBEAT CS1 localhost 7001 busy 3'')) < 6
           \<or> py_int (split (strip ''HEARTBEAT CS1 localhost 7001 busy 3'') ! 3) = None
           \<or> py_int (split (strip ''HEARTBEAT CS1 localhost 7001 busy 3'') ! 4) = None
           \<or> py_int (split (strip ''HEARTBEAT CS1 localhost 7001 busy 3'') ! 5) = None"
    by (simp add: tok_simps)
  have e: "snd (on_heartbeat 120 (strip ''HEARTBEAT CS1 localhost 7001 busy 3'') example_heartbeats)
             = [Log_heartbeat_error]"
    by (simp add: on_heartbeat_def Let_def tok_simps)
  have r: "udp_heartbeat_listener [(121, Text ''HEARTBEAT CS2 localhost 7011 4 3'')]
             example_heartbeats
           = ([(''CS1'', hb1_info),
               (''CS2'', \<lparr>hb_ip = ''localhost'', hb_tcp_port = 7011, last_seen = 121, hb_load = 4,
                          num_files = 3, hb_status = ''alive''\<rparr>)],
              [Log_heartbeat ''CS2'' ''4'' ''3''])"
    by (simp add: on_heartbeat_def Let_def example_heartbeats_def hb2_info_def tok_simps)
  from malformed_heartbeat_ignored [OF h1, of 120 example_heartbeats]
    malformed_heartbeat_ignored [OF h2, of 120 example_heartbeats
      "[(121, Text ''HEARTBEAT CS2 localhost 7011 4 3'')]"] e r
  show ?thesis by simp
qed

section \<open>Liveness check\<close>

lemma fst_sweep:
  "fst (sweep addr net t srv) =
     map (\<lambda>(s, i). (s, if hb_status i = ''alive'' \<and> t - last_seen i > HEARTBEAT_TIMEOUT
                        then i\<lparr>hb_status := ''dead''\<rparr> else i)) srv"
  by (induction srv) (auto simp: Let_def split: prod.splits)

lemma keys_sweep: "map fst (fst (sweep addr net t srv)) = map fst srv"
  by (simp add: fst_sweep comp_def case_prod_unfold)

text \<open>The keys of \<open>servers\<close> stay distinct under heartbeats, as they do under sweeps:
  the state is a dictionary at every moment.\<close>

lemma on_heartbeat_keys_distinct:
  "distinct (map fst srv) \<Longrightarrow> distinct (map fst (fst (on_heartbeat now message srv)))"
  by (auto simp: on_heartbeat_def Let_def distinct_update split: option.splits)

lemma listener_keys_distinct:
  "distinct (map fst srv) \<Longrightarrow> distinct (map fst (fst (udp_heartbeat_listener dgrams srv)))"
proof (induction dgrams srv rule: udp_heartbeat_listener.induct)
  case (1 srv)
  then show ?case by simp
next
  case (2 now rest srv)
  then show ?case by (cases "udp_heartbeat_listener rest srv") simp
next
  case (3 now data rest srv)
  from "3.prems" have "distinct (map fst (fst (on_heartbeat now (strip data) srv)))"
    by (rule on_heartbeat_keys_distinct)
  with "3.IH" [of "fst (on_heartbeat now (strip data) srv)" "snd (on_heartbeat now (strip data) srv)"]
  show ?case by (simp add: listener_Text del: udp_heartbeat_listener.simps)
qed

lemma map_of_sweep:
  "map_of (fst (sweep addr net t srv)) sid =
     map_option (\<lambda>i. if hb_status i = ''alive'' \<and> t - last_seen i > HEARTBEAT_TIMEOUT
                     then i\<lparr>hb_status := ''dead''\<rparr> else i) (map_of srv sid)"
  by (simp add: fst_sweep map_of_map)

lemma count_notify:
  "count_list (notify_index_server_failure addr s clock ok) (Notify_index_server_failure sid)
     = (if s = sid then 1 else 0)"
  by (simp add: notify_index_server_failure_def split: option.splits)

lemma count_sweep:
  "count_list (snd (sweep addr net t srv)) (Notify_index_server_failure sid) =
     length (filter (\<lambda>(s, i). s = sid \<and> hb_status i = ''alive''
                        \<and> t - last_seen i > HEARTBEAT_TIMEOUT) srv)"
proof (induction srv)
  case Nil
  then show ?case by simp
next
  case (Cons p srv)
  obtain s i where p: "p = (s, i)" by (cases p)
  from Cons show ?case unfolding p
    by (simp add: snd_sweep_Cons count_notify del: sweep.simps)
qed

lemma filter_key_distinct:
  assumes "distinct (map fst srv)" and "map_of srv sid = Some info"
  shows "filter (\<lambda>(s, i). s = sid \<and> P i) srv = (if P info then [(sid, info)] else [])"
  using assms
proof (induction srv)
  case Nil
  then show ?case by simp
next
  case (Cons p srv)
  obtain s i where p: "p = (s, i)" by (cases p)
  show ?case
  proof (cases "s = sid")
    case True
    with Cons.prems p have "info = i" and "sid \<notin> fst ` set srv" by auto
    then have "filter (\<lambda>(s, i). s = sid \<and> P i) srv = []"
      by (force simp: filter_empty_conv)
    with True p \<open>info = i\<close> show ?thesis by simp
  next
    case False
    with Cons p show ?thesis by simp
  qed
qed

lemma sweep_dead_quiet:
  assumes "distinct (map fst srv)" and "map_of srv sid = Some info"
      and "hb_status info \<noteq> ''alive''"
  shows "count_list (snd (sweep addr net t srv)) (Notify_index_server_failure sid) = 0
         \<and> map_of (fst (sweep addr net t srv)) sid = Some info"
  using assms
  by (simp add: count_sweep map_of_sweep
      filter_key_distinct [where P = "\<lambda>i. hb_status i = ''alive'' \<and> t - last_seen i > HEARTBEAT_TIMEOUT"])

lemma check_Cons:
  "check_server_health addr net (t # ts) srv =
     (fst (check_server_health addr net ts (fst (sweep addr net t srv))),
      snd (sweep addr net t srv) @ snd (check_server_health addr net ts (fst (sweep addr net t srv))))"
  by (simp split: prod.splits)

lemma check_dead_quiet:
  assumes "distinct (map fst srv)" and "map_of srv sid = Some info"
      and "hb_status info \<noteq> ''alive''"
  shows "count_list (snd (check_server_health addr net ts srv)) (Notify_index_server_failure sid) = 0
         \<and> map_of (fst (check_server_health addr net ts srv)) sid = Some info"
  using assms
proof (induction ts arbitrary: srv)
  case Nil
  then show ?case by simp
next
  case (Cons t ts)
  from sweep_dead_quiet [OF Cons.prems]
  have q: "count_list (snd (sweep addr net t srv)) (Notify_index_server_failure sid) = 0"
    and m: "map_of (fst (sweep addr net t srv)) sid = Some info" by simp_all
  have d: "distinct (map fst (fst (sweep addr net t srv)))"
    using Cons.prems(1) by (simp add: keys_sweep)
  from Cons.IH [OF d m Cons.prems(3)] q show ?case
    by (simp add: check_Cons del: check_server_health.simps)
qed

text \<open>
  C2. In a sweep at time \<open>now\<close>, a record that is \<open>alive\<close> and was last seen more than
  \<open>HEARTBEAT_TIMEOUT\<close> seconds ago becomes \<open>dead\<close>, and \<open>notify_index_server_failure\<close>
  is called for its server exactly once in that sweep. A sweep over a state in which the
  record is \<open>dead\<close> does not call it for that server and leaves the record as it is; so
  over this sweep and any number of later ones it is called exactly once.
\<close>

theorem timeout_marks_dead_and_notifies_once:
  assumes "distinct (map fst srv)" and "map_of srv sid = Some info"
      and "hb_status info = ''alive''" and "now - last_seen info > HEARTBEAT_TIMEOUT"
  shows "map_of (fst (sweep addr net now srv)) sid = Some (info\<lparr>hb_status := ''dead''\<rparr>)
         \<and> count_list (snd (sweep addr net now srv)) (Notify_index_server_failure sid) = 1
         \<and> (\<forall>srv' info' t.
              distinct (map fst srv') \<and> map_of srv' sid = Some info' \<and> hb_status info' = ''dead''
              \<longrightarrow> count_list (snd (sweep addr net t srv')) (Notify_index_server_failure sid) = 0
                  \<and> map_of (fst (sweep addr net t srv')) sid = Some info')
         \<and> count_list (snd (check_server_health addr net (now # later) srv))
              (Notify_index_server_failure sid) = 1
         \<and> map_of (fst (check_server_health addr net (now # later) srv)) sid
              = Some (info\<lparr>hb_status := ''dead''\<rparr>)"
proof -
  have m: "map_of (fst (sweep addr net now srv)) sid = Some (info\<lparr>hb_status := ''dead''\<rparr>)"
    using assms by (simp add: map_of_sweep)
  have c: "count_list (snd (sweep addr net now srv)) (Notify_index_server_failure sid) = 1"
    using assms
    by (simp add: count_sweep
        filter_key_distinct [where P = "\<lambda>i. hb_status i = ''alive'' \<and> now - last_seen i > HEARTBEAT_TIMEOUT"])
  have q: "count_list (snd (sweep addr net t srv')) (Notify_index_server_failure sid) = 0
           \<and> map_of (fst (sweep addr net t srv')) sid = Some info'"
    if "distinct (map fst srv')" "map_of srv' sid = Some info'" "hb_status info' = ''dead''"
    for srv' info' t
    using that by (intro sweep_dead_quiet) simp_all
  have d: "distinct (map fst (fst (sweep addr net now srv)))"
    using assms(1) by (simp add: keys_sweep)
  have "hb_status (info\<lparr>hb_status := ''dead''\<rparr>) \<noteq> ''alive''" by simp
  from check_dead_quiet [OF d m this, of addr net later] m c
  have l: "count_list (snd (check_server_health addr net (now # later) srv))
              (Notify_index_server_failure sid) = 1
         \<and> map_of (fst (check_server_health addr net (now # later) srv)) sid
              = Some (info\<lparr>hb_status := ''dead''\<rparr>)"
    by (simp add: check_Cons del: check_server_health.simps)
  from m c q l show ?thesis by blast
qed

theorem timeout_marks_dead_and_notifies_once_witness:
  "map_of (fst (sweep example_addr example_net 109 example_heartbeats)) ''CS1''
     = Some (hb1_info\<lparr>hb_status := ''dead''\<rparr>)
   \<and> count_list (snd (sweep example_addr example_net 109 example_heartbeats))
       (Notify_index_server_failure ''CS1'') = 1
   \<and> count_list (snd (sweep example_addr example_net 111 dead_heartbeats))
       (Notify_index_server_failure ''CS1'') = 0
   \<and> count_list (snd (check_server_health example_addr example_net [109, 111, 113]
        example_heartbeats)) (Notify_index_server_failure ''CS1'') = 1
   \<and> map_of (fst (check_server_health example_addr example_net [109, 111, 113]
        example_heartbeats)) ''CS1'' = Some (hb1_info\<lparr>hb_status := ''dead''\<rparr>)"
proof -
  have h1: "distinct (map fst example_heartbeats)"
    by (simp add: example_heartbeats_def)
  have h2: "map_of example_heartbeats ''CS1'' = Some hb1_info"
    by (simp add: example_heartbeats_def)
  have h3: "hb_status hb1_info = ''alive''"
    by (simp add: hb1_info_def)
  have h4: "109 - last_seen hb1_info > HEARTBEAT_TIMEOUT"
    by (simp add: hb1_info_def HEARTBEAT_TIMEOUT_def)
  have g: "distinct (map fst dead_heartbeats)
           \<and> map_of dead_heartbeats ''CS1'' = Some (hb1_info\<lparr>hb_status := ''dead''\<rparr>)
           \<and> hb_status (hb1_info\<lparr>hb_status := ''dead''\<rparr>) = ''dead''"
    by (simp add: dead_heartbeats_def)
  from timeout_marks_dead_and_notifies_once [OF h1 h2 h3 h4, of example_addr example_net "[111, 113]"] g
  show ?thesis by blast
qed

text \<open>The sweep of the example at time 109: the first server is marked dead and the
  index server is told once; the second stays alive.\<close>

lemma sweep_example:
  "sweep example_addr example_net 109 example_heartbeats =
     ([(''CS1'', hb1_info\<lparr>hb_status := ''dead''\<rparr>), (''CS2'', hb2_info)],
      [Log_marked_dead ''CS1'' 9, Notify_index_server_failure ''CS1'',
       Sent (''localhost'', 5001) ''SERVER_DOWN CS1 109\<newline>'', Log_notified ''CS1''])"
  by (simp add: example_heartbeats_def hb1_info_def hb2_info_def HEARTBEAT_TIMEOUT_def
      notify_index_server_failure_def example_addr_def example_net_def truncate_def tok_simps)

end
